theory Spec2Isabelle
  imports
    Complex_Main
    "HOL-Library.AList"
    "HOL-Library.Char_ord"
    "HOL-Library.List_Lexorder"
    "HOL-Library.Product_Lexorder"
begin

section \<open>Text\<close>

text \<open>
  Python strings are modelled as \<^typ>\<open>string\<close>. ASCII characters are themselves; a
  character beyond ASCII stands as its UTF-8 bytes, which the case mappings below leave
  alone and which no ASCII class contains. On ASCII text the functions of this section
  compute what the \<^verbatim>\<open>str\<close> methods of the same name compute; Unicode case mapping
  and Unicode white space beyond ASCII are outside the model.
\<close>

definition ascii_uppercase :: string where
  "ascii_uppercase = ''ABCDEFGHIJKLMNOPQRSTUVWXYZ''"

definition ascii_lowercase :: string where
  "ascii_lowercase = ''abcdefghijklmnopqrstuvwxyz''"

definition digits :: string where
  "digits = ''0123456789''"

text \<open>\<^verbatim>\<open>string.punctuation\<close>: the 32 ASCII punctuation characters.\<close>

definition punctuation :: string where
  "punctuation =
     [CHR 0x21, CHR 0x22, CHR 0x23, CHR 0x24, CHR 0x25, CHR 0x26, CHR 0x27, CHR 0x28,
      CHR 0x29, CHR 0x2A, CHR 0x2B, CHR 0x2C, CHR 0x2D, CHR 0x2E, CHR 0x2F, CHR 0x3A,
      CHR 0x3B, CHR 0x3C, CHR 0x3D, CHR 0x3E, CHR 0x3F, CHR 0x40, CHR 0x5B, CHR 0x5C,
      CHR 0x5D, CHR 0x5E, CHR 0x5F, CHR 0x60, CHR 0x7B, CHR 0x7C, CHR 0x7D, CHR 0x7E]"

text \<open>The ASCII characters for which \<^verbatim>\<open>str.isspace\<close> holds.\<close>

definition whitespace :: string where
  "whitespace =
     [CHR 0x09, CHR 0x0A, CHR 0x0B, CHR 0x0C, CHR 0x0D,
      CHR 0x1C, CHR 0x1D, CHR 0x1E, CHR 0x1F, CHR 0x20]"

definition is_upper :: "char \<Rightarrow> bool" where
  "is_upper c \<longleftrightarrow> c \<in> set ascii_uppercase"

definition is_lower :: "char \<Rightarrow> bool" where
  "is_lower c \<longleftrightarrow> c \<in> set ascii_lowercase"

definition is_space :: "char \<Rightarrow> bool" where
  "is_space c \<longleftrightarrow> c \<in> set whitespace"

definition lower_char :: "char \<Rightarrow> char" where
  "lower_char c = (case map_of (zip ascii_uppercase ascii_lowercase) c of
                     Some d \<Rightarrow> d | None \<Rightarrow> c)"

definition upper_char :: "char \<Rightarrow> char" where
  "upper_char c = (case map_of (zip ascii_lowercase ascii_uppercase) c of
                     Some d \<Rightarrow> d | None \<Rightarrow> c)"

text \<open>\<^verbatim>\<open>s.lower()\<close>\<close>

definition lower :: "string \<Rightarrow> string" where
  "lower s = map lower_char s"

text \<open>\<^verbatim>\<open>s.capitalize()\<close>: the first character upper-cased, the others lower-cased.\<close>

fun capitalize :: "string \<Rightarrow> string" where
  "capitalize [] = []"
| "capitalize (c # cs) = upper_char c # map lower_char cs"

text \<open>\<^verbatim>\<open>s.strip()\<close>\<close>

definition strip :: "string \<Rightarrow> string" where
  "strip s = rev (dropWhile is_space (rev (dropWhile is_space s)))"

text \<open>
  \<^verbatim>\<open>s.split()\<close>: the maximal runs of characters that are not white space, in
  order. The first argument is the run being read.
\<close>

fun split_run :: "string \<Rightarrow> string \<Rightarrow> string list" where
  "split_run cur [] = (if cur = [] then [] else [cur])"
| "split_run cur (c # cs) =
     (if is_space c then (if cur = [] then split_run [] cs else cur # split_run [] cs)
      else split_run (cur @ [c]) cs)"

definition split :: "string \<Rightarrow> string list" where
  "split s = split_run [] s"

text \<open>\<^verbatim>\<open>sep.join(parts)\<close>\<close>

fun join :: "string \<Rightarrow> string list \<Rightarrow> string" where
  "join sep [] = []"
| "join sep [x] = x"
| "join sep (x # y # ys) = x @ sep @ join sep (y # ys)"

text \<open>\<^verbatim>\<open>s.replace(old, new)\<close> for a one-character \<^verbatim>\<open>old\<close>.\<close>

definition replace_char :: "char \<Rightarrow> string \<Rightarrow> string \<Rightarrow> string" where
  "replace_char old new s = concat (map (\<lambda>c. if c = old then new else [c]) s)"

section \<open>Names\<close>

definition limpar_nome :: "string \<Rightarrow> string" where
  "limpar_nome nome = strip (filter (\<lambda>c. c \<notin> set punctuation) nome)"

definition CORRECOES_API :: "string \<rightharpoonup> string" where
  "CORRECOES_API = map_of
     [(''nidoran(f)'', ''nidoran-f''),
      (''nidoran(m)'', ''nidoran-m''),
      (''mr. mime'', ''mr-mime''),
      (''farfetch'' @ [CHR 0x27] @ ''d'', ''farfetchd'')]"

definition normalizar_nome_para_api :: "string \<Rightarrow> string" where
  "normalizar_nome_para_api nome =
     (let nome_limpo = strip (lower nome);
          nome_limpo = (case CORRECOES_API nome_limpo of Some v \<Rightarrow> v | None \<Rightarrow> nome_limpo)
      in replace_char (CHR 0x27) []
           (replace_char (CHR ''.'') [] (replace_char (CHR '' '') ''-'' nome_limpo)))"

text \<open>
  \<^verbatim>\<open>extrair_nomes_de_pokemon\<close>. The list \<^verbatim>\<open>NOMES_VALIDOS\<close> is a module constant of
  the source, computed from the cache file; here it is the first argument.
\<close>

definition extrair_nomes_de_pokemon :: "string list \<Rightarrow> string \<Rightarrow> string list" where
  "extrair_nomes_de_pokemon NOMES_VALIDOS texto =
     map capitalize
       (filter (\<lambda>palavra. lower (limpar_nome palavra) \<in> set NOMES_VALIDOS) (split texto))"

section \<open>Closest match (\<^verbatim>\<open>difflib\<close>)\<close>

text \<open>
  \<^verbatim>\<open>corrigir_nome_pokemon\<close> calls \<^verbatim>\<open>difflib.get_close_matches(word, NOMES_VALIDOS, n=1)\<close>
  of Python's standard library, with the default cutoff 0.6. The definitions of this
  section follow \<^verbatim>\<open>difflib.SequenceMatcher\<close> as \<^verbatim>\<open>get_close_matches\<close> sets it up: no
  junk predicate, \<^verbatim>\<open>autojunk\<close> on, the typed word as the second sequence \<^verbatim>\<open>b\<close> and each
  known name in turn as the first sequence \<^verbatim>\<open>a\<close>. Scores are floats in the source and
  rationals here; \<^verbatim>\<open>2.0 * matches / length\<close> is rounded correctly, so the two orders
  agree for every pair of sequences that fits in memory.
\<close>

definition calculate_ratio :: "nat \<Rightarrow> nat \<Rightarrow> rat" where
  "calculate_ratio matches len = (if len \<noteq> 0 then 2 * of_nat matches / of_nat len else 1)"

text \<open>
  \<^verbatim>\<open>__chain_b\<close>: \<^verbatim>\<open>b2j\<close> maps an element of \<^verbatim>\<open>b\<close> to the ascending list of its
  indices in \<^verbatim>\<open>b\<close>, except that in a sequence of 200 elements or more the elements
  occurring more than \<^verbatim>\<open>n // 100 + 1\<close> times (the popular ones) are removed from it.
\<close>

definition popular :: "string \<Rightarrow> char \<Rightarrow> bool" where
  "popular b elt \<longleftrightarrow> 200 \<le> length b \<and> length b div 100 + 1 < count_list b elt"

definition b2j :: "string \<Rightarrow> char \<Rightarrow> nat list" where
  "b2j b elt = (if popular b elt then [] else filter (\<lambda>j. b ! j = elt) [0..<length b])"

type_synonym match = "nat \<times> nat \<times> nat"

text \<open>
  The body of the inner loop of \<^verbatim>\<open>find_longest_match\<close>, for one index \<^verbatim>\<open>j\<close> of
  \<^verbatim>\<open>b2j[a[i]]\<close>. \<^verbatim>\<open>j2len\<close> is read only through \<^verbatim>\<open>j2len.get(j - 1, 0)\<close>, so it is
  a function with value 0 where the dictionary has no key; index -1 is never a key.
  \<^verbatim>\<open>i - k + 1\<close> is written \<open>i + 1 - k\<close>, the same number when \<open>k \<le> i + 1\<close>.
\<close>

definition flm_cell ::
  "(nat \<Rightarrow> nat) \<Rightarrow> nat \<Rightarrow> nat \<Rightarrow> match \<times> (nat \<Rightarrow> nat) \<Rightarrow> match \<times> (nat \<Rightarrow> nat)" where
  "flm_cell j2len i j st =
     (case st of ((besti, bestj, bestsize), newj2len) \<Rightarrow>
        let k = (if j = 0 then 0 else j2len (j - 1)) + 1
        in ((if bestsize < k then (i + 1 - k, j + 1 - k, k) else (besti, bestj, bestsize)),
            newj2len(j := k)))"

text \<open>
  One pass of the outer loop: \<^verbatim>\<open>continue\<close> skips the indices below \<^verbatim>\<open>blo\<close>,
  \<^verbatim>\<open>break\<close> stops at the first index that is not below \<^verbatim>\<open>bhi\<close>.
\<close>

definition flm_row ::
  "string \<Rightarrow> string \<Rightarrow> nat \<Rightarrow> nat \<Rightarrow> nat \<Rightarrow> match \<times> (nat \<Rightarrow> nat) \<Rightarrow> match \<times> (nat \<Rightarrow> nat)" where
  "flm_row a b blo bhi i st =
     (case st of (best, j2len) \<Rightarrow>
        fold (flm_cell j2len i)
          (takeWhile (\<lambda>j. j < bhi) (filter (\<lambda>j. blo \<le> j) (b2j b (a ! i))))
          (best, \<lambda>j. 0))"

definition flm_scan :: "string \<Rightarrow> string \<Rightarrow> nat \<Rightarrow> nat \<Rightarrow> nat \<Rightarrow> nat \<Rightarrow> match \<times> (nat \<Rightarrow> nat)" where
  "flm_scan a b alo ahi blo bhi =
     fold (flm_row a b blo bhi) [alo..<ahi] ((alo, blo, 0), \<lambda>j. 0)"

text \<open>
  The two loops that extend the best match by elements that are not junk. With no junk
  predicate the set \<^verbatim>\<open>bjunk\<close> is empty, so \<^verbatim>\<open>isbjunk\<close> is false everywhere and the two
  further loops of the source, which extend by junk elements only, never run.
\<close>

function extend_left :: "string \<Rightarrow> string \<Rightarrow> nat \<Rightarrow> nat \<Rightarrow> match \<Rightarrow> match" where
  "extend_left a b alo blo (besti, bestj, bestsize) =
     (if alo < besti \<and> blo < bestj \<and> a ! (besti - 1) = b ! (bestj - 1)
      then extend_left a b alo blo (besti - 1, bestj - 1, bestsize + 1)
      else (besti, bestj, bestsize))"
  by pat_completeness auto
termination
  by (relation "measure (\<lambda>(a, b, alo, blo, besti, bestj, bestsize). besti)") auto

function extend_right :: "string \<Rightarrow> string \<Rightarrow> nat \<Rightarrow> nat \<Rightarrow> match \<Rightarrow> match" where
  "extend_right a b ahi bhi (besti, bestj, bestsize) =
     (if besti + bestsize < ahi \<and> bestj + bestsize < bhi
         \<and> a ! (besti + bestsize) = b ! (bestj + bestsize)
      then extend_right a b ahi bhi (besti, bestj, bestsize + 1)
      else (besti, bestj, bestsize))"
  by pat_completeness auto
termination
  by (relation "measure (\<lambda>(a, b, ahi, bhi, besti, bestj, bestsize). ahi - (besti + bestsize))")
     auto

declare extend_left.simps [simp del]
declare extend_right.simps [simp del]

definition find_longest_match :: "string \<Rightarrow> string \<Rightarrow> nat \<Rightarrow> nat \<Rightarrow> nat \<Rightarrow> nat \<Rightarrow> match" where
  "find_longest_match a b alo ahi blo bhi =
     extend_right a b ahi bhi (extend_left a b alo blo (fst (flm_scan a b alo ahi blo bhi)))"

text \<open>
  \<^verbatim>\<open>get_matching_blocks\<close> terminates because the block that \<^verbatim>\<open>find_longest_match\<close>
  returns lies inside the window it was asked about. That is shown first: a returned
  block is either empty and at the window's origin, or a run of equal elements inside
  the window.
\<close>

definition block_ok :: "string \<Rightarrow> string \<Rightarrow> nat \<Rightarrow> nat \<Rightarrow> nat \<Rightarrow> nat \<Rightarrow> match \<Rightarrow> bool" where
  "block_ok a b alo ahi blo bhi m =
     (case m of (i, j, k) \<Rightarrow>
        (k = 0 \<and> i = alo \<and> j = blo)
        \<or> (0 < k \<and> alo \<le> i \<and> i + k \<le> ahi \<and> blo \<le> j \<and> j + k \<le> bhi
            \<and> (\<forall>t<k. a ! (i + t) = b ! (j + t))))"

text \<open>What the loop knows about \<open>j2len\<close> when row \<open>i\<close> is next.\<close>

definition j2len_ok :: "string \<Rightarrow> string \<Rightarrow> nat \<Rightarrow> nat \<Rightarrow> nat \<Rightarrow> nat \<Rightarrow> (nat \<Rightarrow> nat) \<Rightarrow> bool" where
  "j2len_ok a b alo blo bhi i f =
     (\<forall>j. f j \<le> i - alo \<and> f j \<le> j + 1 - blo \<and> (0 < f j \<longrightarrow> j < bhi)
          \<and> (\<forall>t<f j. a ! (i - 1 - t) = b ! (j - t)))"

lemma b2j_mem: "j \<in> set (b2j b elt) \<Longrightarrow> j < length b \<and> b ! j = elt"
  by (auto simp: b2j_def split: if_splits)

lemma flm_cell_ok:
  assumes f: "j2len_ok a b alo blo bhi i f"
    and i: "alo \<le> i"
    and j: "blo \<le> j" "j < bhi" "b ! j = a ! i"
    and best: "block_ok a b alo (Suc i) blo bhi best"
    and new: "j2len_ok a b alo blo bhi (Suc i) new"
    and st: "flm_cell f i j (best, new) = (best', new')"
  shows "block_ok a b alo (Suc i) blo bhi best' \<and> j2len_ok a b alo blo bhi (Suc i) new'"
proof -
  define k where "k = (if j = 0 then 0 else f (j - 1)) + 1"
  obtain bi bj bk where b: "best = (bi, bj, bk)" by (cases best)
  have fj: "f j' \<le> i - alo" for j'
    using f by (simp add: j2len_ok_def)
  have k1: "k \<le> Suc i - alo"
    using fj [of "j - 1"] i by (auto simp: k_def)
  have k2: "k \<le> j + 1 - blo"
  proof (cases "j = 0")
    case True
    then show ?thesis using j by (simp add: k_def)
  next
    case False
    have "f (j - 1) \<le> (j - 1) + 1 - blo" using f by (auto simp: j2len_ok_def)
    then show ?thesis using False j by (simp add: k_def)
  qed
  have k3: "a ! (i - t) = b ! (j - t)" if "t < k" for t
  proof (cases t)
    case 0
    then show ?thesis using j by simp
  next
    case (Suc t')
    with that have nz: "j \<noteq> 0" and lt: "t' < f (j - 1)"
      by (auto simp: k_def split: if_splits)
    have "a ! (i - 1 - t') = b ! (j - 1 - t')"
      using f lt by (auto simp: j2len_ok_def)
    then show ?thesis using Suc by simp
  qed
  have new': "new' = new(j := k)"
    and best': "best' = (if bk < k then (i + 1 - k, j + 1 - k, k) else best)"
    using st by (auto simp: flm_cell_def b k_def Let_def)
  have "j2len_ok a b alo blo bhi (Suc i) new'"
    unfolding new' j2len_ok_def
  proof (intro allI)
    fix j'
    show "(new(j := k)) j' \<le> Suc i - alo \<and> (new(j := k)) j' \<le> j' + 1 - blo
        \<and> (0 < (new(j := k)) j' \<longrightarrow> j' < bhi)
        \<and> (\<forall>t<(new(j := k)) j'. a ! (Suc i - 1 - t) = b ! (j' - t))"
    proof (cases "j' = j")
      case True
      then show ?thesis using k1 k2 k3 j by simp
    next
      case False
      then show ?thesis using new by (simp add: j2len_ok_def)
    qed
  qed
  moreover have "block_ok a b alo (Suc i) blo bhi best'"
  proof (cases "bk < k")
    case False
    then show ?thesis using best best' b by simp
  next
    case True
    have kpos: "0 < k" by (simp add: k_def)
    have "a ! (i + 1 - k + t) = b ! (j + 1 - k + t)" if "t < k" for t
    proof -
      have "k - 1 - t < k" using kpos by simp
      from k3 [OF this] have m: "a ! (i - (k - 1 - t)) = b ! (j - (k - 1 - t))" .
      have e1: "i - (k - 1 - t) = i + 1 - k + t" using that k1 i by simp
      have e2: "j - (k - 1 - t) = j + 1 - k + t" using that k2 j by simp
      from m show ?thesis unfolding e1 e2 .
    qed
    then show ?thesis
      using True best' kpos k1 k2 i j by (auto simp: block_ok_def)
  qed
  ultimately show ?thesis by simp
qed


lemma fold_flm_cell_ok:
  assumes f: "j2len_ok a b alo blo bhi i f"
    and i: "alo \<le> i"
    and js: "\<forall>j\<in>set js. blo \<le> j \<and> j < bhi \<and> b ! j = a ! i"
    and st: "block_ok a b alo (Suc i) blo bhi (fst st)" "j2len_ok a b alo blo bhi (Suc i) (snd st)"
  shows "block_ok a b alo (Suc i) blo bhi (fst (fold (flm_cell f i) js st))
       \<and> j2len_ok a b alo blo bhi (Suc i) (snd (fold (flm_cell f i) js st))"
  using js st
proof (induction js arbitrary: st)
  case Nil
  then show ?case by simp
next
  case (Cons j js)
  obtain best' new' where c: "flm_cell f i j (fst st, snd st) = (best', new')"
    by (cases "flm_cell f i j (fst st, snd st)")
  have "block_ok a b alo (Suc i) blo bhi best' \<and> j2len_ok a b alo blo bhi (Suc i) new'"
    using flm_cell_ok [OF f i _ _ _ Cons.prems(2,3) c] Cons.prems(1) by simp
  then show ?case
    using Cons.IH [of "(best', new')"] Cons.prems(1) c by simp
qed

lemma block_ok_mono:
  "block_ok a b alo ahi blo bhi m \<Longrightarrow> ahi \<le> ahi' \<Longrightarrow> block_ok a b alo ahi' blo bhi m"
  by (auto simp: block_ok_def)

lemma flm_row_ok:
  assumes f: "j2len_ok a b alo blo bhi i (snd st)"
    and i: "alo \<le> i"
    and best: "block_ok a b alo i blo bhi (fst st)"
  shows "block_ok a b alo (Suc i) blo bhi (fst (flm_row a b blo bhi i st))
       \<and> j2len_ok a b alo blo bhi (Suc i) (snd (flm_row a b blo bhi i st))"
proof -
  let ?js = "takeWhile (\<lambda>j. j < bhi) (filter (\<lambda>j. blo \<le> j) (b2j b (a ! i)))"
  have js: "\<forall>j\<in>set ?js. blo \<le> j \<and> j < bhi \<and> b ! j = a ! i"
  proof
    fix j assume j: "j \<in> set ?js"
    then have "j < bhi" by (auto dest: set_takeWhileD)
    moreover from j have "j \<in> set (filter (\<lambda>j. blo \<le> j) (b2j b (a ! i)))"
      by (auto dest: set_takeWhileD)
    ultimately show "blo \<le> j \<and> j < bhi \<and> b ! j = a ! i"
      by (auto dest: b2j_mem)
  qed
  have z: "j2len_ok a b alo blo bhi (Suc i) (\<lambda>j. 0)"
    by (simp add: j2len_ok_def)
  have b': "block_ok a b alo (Suc i) blo bhi (fst st)"
    using best by (rule block_ok_mono) simp
  have "flm_row a b blo bhi i st = fold (flm_cell (snd st) i) ?js (fst st, \<lambda>j. 0)"
    by (cases st) (simp add: flm_row_def)
  then show ?thesis
    using fold_flm_cell_ok [OF f i js, of "(fst st, \<lambda>j. 0)"] b' z by simp
qed

lemma flm_scan_Suc:
  "alo \<le> n \<Longrightarrow> flm_scan a b alo (Suc n) blo bhi = flm_row a b blo bhi n (flm_scan a b alo n blo bhi)"
  by (simp add: flm_scan_def)

lemma flm_scan_ok:
  "alo \<le> ahi \<Longrightarrow>
   block_ok a b alo ahi blo bhi (fst (flm_scan a b alo ahi blo bhi))
   \<and> j2len_ok a b alo blo bhi ahi (snd (flm_scan a b alo ahi blo bhi))"
proof (induction ahi)
  case 0
  then show ?case by (simp add: flm_scan_def block_ok_def j2len_ok_def)
next
  case (Suc n)
  show ?case
  proof (cases "alo \<le> n")
    case True
    then show ?thesis
      using Suc.IH flm_row_ok [of a b alo blo bhi n "flm_scan a b alo n blo bhi"]
      by (simp add: flm_scan_Suc)
  next
    case False
    with Suc.prems have "alo = Suc n" by simp
    then show ?thesis by (simp add: flm_scan_def block_ok_def j2len_ok_def)
  qed
qed

lemma flm_scan_block_ok: "block_ok a b alo ahi blo bhi (fst (flm_scan a b alo ahi blo bhi))"
proof (cases "alo \<le> ahi")
  case True
  then show ?thesis using flm_scan_ok by blast
next
  case False
  then show ?thesis by (simp add: flm_scan_def block_ok_def)
qed

lemma extend_left_ok:
  "block_ok a b alo ahi blo bhi m \<Longrightarrow> block_ok a b alo ahi blo bhi (extend_left a b alo blo m)"
proof (induction a b alo blo m rule: extend_left.induct)
  case (1 a b alo blo besti bestj bestsize)
  show ?case
  proof (cases "alo < besti \<and> blo < bestj \<and> a ! (besti - 1) = b ! (bestj - 1)")
    case False
    then show ?thesis using "1.prems" by (subst extend_left.simps) auto
  next
    case True
    have "block_ok a b alo ahi blo bhi (besti - 1, bestj - 1, bestsize + 1)"
      unfolding block_ok_def
    proof (clarsimp, intro conjI allI impI)
      show "alo \<le> besti - Suc 0" "blo \<le> bestj - Suc 0" using True by auto
      show "Suc (besti - Suc 0 + bestsize) \<le> ahi" "Suc (bestj - Suc 0 + bestsize) \<le> bhi"
        using True "1.prems" by (auto simp: block_ok_def)
      fix t assume t: "t < Suc bestsize"
      show "a ! (besti - Suc 0 + t) = b ! (bestj - Suc 0 + t)"
      proof (cases t)
        case 0
        then show ?thesis using True by simp
      next
        case (Suc t')
        then have "a ! (besti + t') = b ! (bestj + t')"
          using t True "1.prems" by (auto simp: block_ok_def)
        then show ?thesis using Suc True by simp
      qed
    qed
    then show ?thesis using True "1.IH" by (subst extend_left.simps) simp
  qed
qed

lemma extend_right_ok:
  "block_ok a b alo ahi blo bhi m \<Longrightarrow> block_ok a b alo ahi blo bhi (extend_right a b ahi bhi m)"
proof (induction a b ahi bhi m rule: extend_right.induct)
  case (1 a b ahi bhi besti bestj bestsize)
  show ?case
  proof (cases "besti + bestsize < ahi \<and> bestj + bestsize < bhi
                \<and> a ! (besti + bestsize) = b ! (bestj + bestsize)")
    case False
    then show ?thesis using "1.prems" by (subst extend_right.simps) auto
  next
    case True
    have "block_ok a b alo ahi blo bhi (besti, bestj, bestsize + 1)"
      using True "1.prems" by (auto simp: block_ok_def less_Suc_eq)
    then show ?thesis using True "1.IH" by (subst extend_right.simps) simp
  qed
qed

lemma find_longest_match_ok:
  "block_ok a b alo ahi blo bhi (find_longest_match a b alo ahi blo bhi)"
  unfolding find_longest_match_def
  by (intro extend_right_ok extend_left_ok flm_scan_block_ok)

lemma find_longest_match_window:
  "find_longest_match a b alo ahi blo bhi = (i, j, k) \<Longrightarrow> k \<noteq> 0 \<Longrightarrow>
   alo \<le> i \<and> i + k \<le> ahi \<and> blo \<le> j \<and> j + k \<le> bhi"
  using find_longest_match_ok [of a b alo ahi blo bhi] by (auto simp: block_ok_def)

text \<open>
  The loop of \<^verbatim>\<open>get_matching_blocks\<close>. The queue is used as a stack: its head here is
  the last element of the Python list, the one \<^verbatim>\<open>queue.pop()\<close> takes.
\<close>

function matching_loop ::
  "string \<Rightarrow> string \<Rightarrow> (nat \<times> nat \<times> nat \<times> nat) list \<Rightarrow> match list \<Rightarrow> match list" where
  "matching_loop a b [] blocks = blocks"
| "matching_loop a b ((alo, ahi, blo, bhi) # queue) blocks =
     (case find_longest_match a b alo ahi blo bhi of (i, j, k) \<Rightarrow>
        if k \<noteq> 0 then
          matching_loop a b
            ((if i + k < ahi \<and> j + k < bhi then [(i + k, ahi, j + k, bhi)] else [])
             @ (if alo < i \<and> blo < j then [(alo, i, blo, j)] else [])
             @ queue)
            (blocks @ [(i, j, k)])
        else matching_loop a b queue blocks)"
  by pat_completeness auto
termination
  by (relation "measure (\<lambda>(a, b, queue, blocks).
                   sum_list (map (\<lambda>(alo, ahi, blo, bhi). 2 * (ahi - alo) + 1) queue))")
     (auto dest!: find_longest_match_window [OF sym])

declare matching_loop.simps [simp del]

text \<open>
  The rest of \<^verbatim>\<open>get_matching_blocks\<close>: the blocks are sorted, adjacent blocks are
  merged, and the sentinel \<^verbatim>\<open>(la, lb, 0)\<close> is appended.
\<close>

definition collapse_step :: "match \<Rightarrow> match \<times> match list \<Rightarrow> match \<times> match list" where
  "collapse_step blk st =
     (case (blk, st) of ((i2, j2, k2), ((i1, j1, k1), non_adjacent)) \<Rightarrow>
        if i1 + k1 = i2 \<and> j1 + k1 = j2 then ((i1, j1, k1 + k2), non_adjacent)
        else ((i2, j2, k2),
              (if k1 \<noteq> 0 then non_adjacent @ [(i1, j1, k1)] else non_adjacent)))"

definition get_matching_blocks :: "string \<Rightarrow> string \<Rightarrow> match list" where
  "get_matching_blocks a b =
     (let la = length a; lb = length b;
          matching_blocks = sort (matching_loop a b [(0, la, 0, lb)] [])
      in case fold collapse_step matching_blocks ((0, 0, 0), []) of
           ((i1, j1, k1), non_adjacent) \<Rightarrow>
             (if k1 \<noteq> 0 then non_adjacent @ [(i1, j1, k1)] else non_adjacent)
             @ [(la, lb, 0)])"

definition ratio :: "string \<Rightarrow> string \<Rightarrow> rat" where
  "ratio a b =
     calculate_ratio (sum_list (map (\<lambda>(i, j, k). k) (get_matching_blocks a b)))
       (length a + length b)"

text \<open>
  \<^verbatim>\<open>quick_ratio\<close>: \<^verbatim>\<open>fullbcount\<close> counts the occurrences of each element in \<^verbatim>\<open>b\<close>;
  \<^verbatim>\<open>avail\<close> holds, for the elements of \<^verbatim>\<open>a\<close> seen so far, how many occurrences in
  \<^verbatim>\<open>b\<close> are still unmatched (it may go below zero).
\<close>

definition quick_step :: "string \<Rightarrow> char \<Rightarrow> (char \<rightharpoonup> int) \<times> nat \<Rightarrow> (char \<rightharpoonup> int) \<times> nat" where
  "quick_step b elt st =
     (case st of (avail, matches) \<Rightarrow>
        let numb = (case avail elt of Some n \<Rightarrow> n | None \<Rightarrow> int (count_list b elt))
        in (avail(elt \<mapsto> numb - 1), if 0 < numb then matches + 1 else matches))"

definition quick_ratio :: "string \<Rightarrow> string \<Rightarrow> rat" where
  "quick_ratio a b =
     calculate_ratio (snd (fold (quick_step b) a (Map.empty, 0))) (length a + length b)"

definition real_quick_ratio :: "string \<Rightarrow> string \<Rightarrow> rat" where
  "real_quick_ratio a b = calculate_ratio (min (length a) (length b)) (length a + length b)"

definition cutoff :: rat where
  "cutoff = 6 / 10"

text \<open>
  \<^verbatim>\<open>heapq.nlargest(1, result)\<close> is \<^verbatim>\<open>max(result)\<close>, or nothing for an empty list;
  \<^verbatim>\<open>max\<close> keeps the first of several greatest elements. The elements are pairs of a
  score and a name, ordered by score and then by name.
\<close>

fun nlargest1 :: "(rat \<times> string) list \<Rightarrow> (rat \<times> string) list" where
  "nlargest1 [] = []"
| "nlargest1 (x # xs) = [fold (\<lambda>y m. if m < y then y else m) xs x]"

definition get_close_matches :: "string \<Rightarrow> string list \<Rightarrow> string list" where
  "get_close_matches word possibilities =
     map snd
       (nlargest1
          (map (\<lambda>x. (ratio x word, x))
             (filter (\<lambda>x. cutoff \<le> real_quick_ratio x word \<and> cutoff \<le> quick_ratio x word
                           \<and> cutoff \<le> ratio x word)
                possibilities)))"

definition corrigir_nome_pokemon :: "string list \<Rightarrow> string \<Rightarrow> string" where
  "corrigir_nome_pokemon NOMES_VALIDOS nome_digitado =
     (case get_close_matches (lower nome_digitado) NOMES_VALIDOS of
        [] \<Rightarrow> lower nome_digitado
      | sugestao # _ \<Rightarrow> sugestao)"

text \<open>
  Notions for the proofs about the closest match. The total size of a list of blocks:
\<close>

definition tamanho :: "match list \<Rightarrow> nat" where
  "tamanho blocks = sum_list (map (\<lambda>(i, j, k). k) blocks)"

text \<open>A window whose two sides are equal, element by element.\<close>

definition perfeito :: "string \<Rightarrow> string \<Rightarrow> nat \<times> nat \<times> nat \<times> nat \<Rightarrow> bool" where
  "perfeito a b w =
     (case w of (alo, ahi, blo, bhi) \<Rightarrow>
        ahi - alo = bhi - blo \<and> (\<forall>t<ahi - alo. a ! (alo + t) = b ! (blo + t)))"

definition lados :: "(nat \<times> nat \<times> nat \<times> nat) list \<Rightarrow> nat" where
  "lados queue = sum_list (map (\<lambda>(alo, ahi, blo, bhi). (ahi - alo) + (bhi - blo)) queue)"

text \<open>
  The number of consecutive elements that are not popular, ending at an index.
\<close>

fun corrida :: "string \<Rightarrow> nat \<Rightarrow> nat" where
  "corrida s 0 = (if popular s (s ! 0) then 0 else 1)"
| "corrida s (Suc i) = (if popular s (s ! Suc i) then 0 else Suc (corrida s i))"

definition corrida_ant :: "string \<Rightarrow> nat \<Rightarrow> nat" where
  "corrida_ant s i = (if i = 0 then 0 else corrida s (i - 1))"

text \<open>
  The state of the scan of a sequence against itself, when row \<open>i\<close> is next: the best
  block lies on the diagonal and is at least as long as every run seen so far.
\<close>

definition diag_ok :: "string \<Rightarrow> nat \<Rightarrow> match \<times> (nat \<Rightarrow> nat) \<Rightarrow> bool" where
  "diag_ok s i st =
     (case st of ((bi, bj, bk), f) \<Rightarrow>
        bi = bj \<and> (\<forall>j<i. corrida s j \<le> bk)
        \<and> (\<forall>j. f j \<le> corrida s j \<and> f j \<le> corrida_ant s i)
        \<and> (0 < i \<longrightarrow> f (i - 1) = corrida s (i - 1)))"

section \<open>Conversation memory\<close>

text \<open>
  \<^verbatim>\<open>collections.deque(maxlen=n).append(x)\<close>: the element is added on the right, and
  when the deque is then longer than \<^verbatim>\<open>maxlen\<close> its leftmost element is dropped.
\<close>

definition deque_append :: "nat \<Rightarrow> 'a list \<Rightarrow> 'a \<Rightarrow> 'a list" where
  "deque_append maxlen d x =
     (let d' = d @ [x] in if maxlen < length d' then tl d' else d')"

record MemoriaConversa =
  historico :: "(string \<times> string) list"
  ultimo_pokemon :: "string option"

text \<open>\<^verbatim>\<open>MemoriaConversa.__init__\<close>\<close>

definition memoria_init :: MemoriaConversa where
  "memoria_init = \<lparr>historico = [], ultimo_pokemon = None\<rparr>"

definition adicionar :: "MemoriaConversa \<Rightarrow> string \<Rightarrow> string \<Rightarrow> MemoriaConversa" where
  "adicionar m pergunta resposta =
     m\<lparr>historico := deque_append 3 (historico m) (pergunta, resposta)\<rparr>"

definition contexto :: "MemoriaConversa \<Rightarrow> string" where
  "contexto m =
     join [CHR 0x0A]
       (map (\<lambda>(q, a). ''Q: '' @ q @ [CHR 0x0A] @ ''A: '' @ a) (historico m))"

text \<open>A run of \<^verbatim>\<open>adicionar\<close> calls, one per (question, answer) pair, in order.\<close>

definition adicionar_todos ::
  "MemoriaConversa \<Rightarrow> (string \<times> string) list \<Rightarrow> MemoriaConversa" where
  "adicionar_todos m es = fold (\<lambda>(q, a) m'. adicionar m' q a) es m"

section \<open>Weaknesses\<close>

definition tabela_tipos :: "string \<rightharpoonup> string set" where
  "tabela_tipos = map_of
     [(''Fire'', {''Water'', ''Rock'', ''Ground''}),
      (''Water'', {''Electric'', ''Grass''}),
      (''Electric'', {''Ground''}),
      (''Grass'', {''Fire'', ''Ice'', ''Poison'', ''Flying'', ''Bug''}),
      (''Ice'', {''Fire'', ''Fighting'', ''Rock'', ''Steel''}),
      (''Fighting'', {''Flying'', ''Psychic'', ''Fairy''}),
      (''Poison'', {''Ground'', ''Psychic''}),
      (''Ground'', {''Water'', ''Grass'', ''Ice''}),
      (''Flying'', {''Electric'', ''Ice'', ''Rock''}),
      (''Psychic'', {''Bug'', ''Ghost'', ''Dark''}),
      (''Bug'', {''Fire'', ''Flying'', ''Rock''}),
      (''Rock'', {''Water'', ''Grass'', ''Fighting'', ''Ground'', ''Steel''}),
      (''Ghost'', {''Ghost'', ''Dark''}),
      (''Dragon'', {''Ice'', ''Dragon'', ''Fairy''}),
      (''Dark'', {''Fighting'', ''Bug'', ''Fairy''}),
      (''Steel'', {''Fire'', ''Fighting'', ''Ground''}),
      (''Fairy'', {''Poison'', ''Steel''})]"

text \<open>
  The loop body of \<^verbatim>\<open>calcular_fraquezas\<close>: \<^verbatim>\<open>fraquezas.update(tabela_tipos[tipo])\<close>
  when the type is a key of the table, nothing otherwise.
\<close>

definition acrescentar_tipo :: "string \<Rightarrow> string set \<Rightarrow> string set" where
  "acrescentar_tipo tipo fraquezas =
     (case tabela_tipos tipo of Some ws \<Rightarrow> fraquezas \<union> ws | None \<Rightarrow> fraquezas)"

text \<open>\<^verbatim>\<open>sorted\<close> of a set of strings is its elements in ascending order.\<close>

definition calcular_fraquezas :: "string list \<Rightarrow> string list" where
  "calcular_fraquezas tipos = sorted_list_of_set (fold acrescentar_tipo tipos {})"

section \<open>Intent\<close>

text \<open>
  Each test of \<^verbatim>\<open>detectar_intencao\<close> is \<^verbatim>\<open>re.search\<close> of a pattern
  \<^verbatim>\<open>\b(w1|...|wn)\b\<close> whose alternatives begin and end with a letter, so it finds
  something exactly when one alternative occurs in the text with no word character
  directly before or after it. A word character is an ASCII letter, digit or underscore;
  the bytes of a character beyond ASCII count as word characters, which is right for the
  accented letters of the keywords and not for symbols beyond ASCII.
\<close>

definition is_word_char :: "char \<Rightarrow> bool" where
  "is_word_char c \<longleftrightarrow>
     c \<in> set (ascii_lowercase @ ascii_uppercase @ digits @ ''_'') \<or> CHR 0x80 \<le> c"

definition word_at :: "string \<Rightarrow> string \<Rightarrow> nat \<Rightarrow> bool" where
  "word_at kw text i \<longleftrightarrow>
     take (length kw) (drop i text) = kw
     \<and> (i = 0 \<or> \<not> is_word_char (text ! (i - 1)))
     \<and> (length text \<le> i + length kw \<or> \<not> is_word_char (text ! (i + length kw)))"

definition re_search :: "string list \<Rightarrow> string \<Rightarrow> bool" where
  "re_search kws text \<longleftrightarrow>
     list_ex (\<lambda>kw. list_ex (word_at kw text) [0..<Suc (length text)]) kws"

definition c_cedilha :: string where
  "c_cedilha = [CHR 0xC3, CHR 0xA7]"

definition a_til :: string where
  "a_til = [CHR 0xC3, CHR 0xA3]"

definition i_agudo :: string where
  "i_agudo = [CHR 0xC3, CHR 0xAD]"

definition e_agudo :: string where
  "e_agudo = [CHR 0xC3, CHR 0xA9]"

definition a_agudo :: string where
  "a_agudo = [CHR 0xC3, CHR 0xA1]"

definition o_agudo :: string where
  "o_agudo = [CHR 0xC3, CHR 0xB3]"

definition e_circunflexo :: string where
  "e_circunflexo = [CHR 0xC3, CHR 0xAA]"

definition emoji_espadas :: string where
  "emoji_espadas = [CHR 0xE2, CHR 0x9A, CHR 0x94, CHR 0xEF, CHR 0xB8, CHR 0x8F]"

definition emoji_escudo :: string where
  "emoji_escudo = [CHR 0xF0, CHR 0x9F, CHR 0x9B, CHR 0xA1, CHR 0xEF, CHR 0xB8, CHR 0x8F]"

definition emoji_folha :: string where
  "emoji_folha = [CHR 0xF0, CHR 0x9F, CHR 0x8C, CHR 0xBF]"

definition emoji_brilho :: string where
  "emoji_brilho = [CHR 0xE2, CHR 0x9C, CHR 0xA8]"

definition emoji_cristal :: string where
  "emoji_cristal = [CHR 0xF0, CHR 0x9F, CHR 0x94, CHR 0xAE]"

definition emoji_aviso :: string where
  "emoji_aviso = [CHR 0xE2, CHR 0x9A, CHR 0xA0, CHR 0xEF, CHR 0xB8, CHR 0x8F]"

definition emoji_mapa :: string where
  "emoji_mapa = [CHR 0xF0, CHR 0x9F, CHR 0x97, CHR 0xBA, CHR 0xEF, CHR 0xB8, CHR 0x8F]"

definition emoji_balanca :: string where
  "emoji_balanca = [CHR 0xE2, CHR 0x9A, CHR 0x96, CHR 0xEF, CHR 0xB8, CHR 0x8F]"

definition emoji_fogo :: string where
  "emoji_fogo = [CHR 0xF0, CHR 0x9F, CHR 0x94, CHR 0xA5]"

definition emoji_coracao :: string where
  "emoji_coracao = [CHR 0xE2, CHR 0x9D, CHR 0xA4, CHR 0xEF, CHR 0xB8, CHR 0x8F]"

definition emoji_raio :: string where
  "emoji_raio = [CHR 0xE2, CHR 0x9A, CHR 0xA1]"

definition emoji_lupa :: string where
  "emoji_lupa = [CHR 0xF0, CHR 0x9F, CHR 0x94, CHR 0x8D]"

definition emoji_livro :: string where
  "emoji_livro = [CHR 0xF0, CHR 0x9F, CHR 0x93, CHR 0x98]"

definition emoji_livro_aberto :: string where
  "emoji_livro_aberto = [CHR 0xF0, CHR 0x9F, CHR 0x93, CHR 0x96]"

definition emoji_regua :: string where
  "emoji_regua = [CHR 0xF0, CHR 0x9F, CHR 0x93, CHR 0x8F]"

definition emoji_interrogacao :: string where
  "emoji_interrogacao = [CHR 0xE2, CHR 0x9D, CHR 0x93]"

definition emoji_xis :: string where
  "emoji_xis = [CHR 0xE2, CHR 0x9D, CHR 0x8C]"

definition detectar_intencao :: "string \<Rightarrow> string" where
  "detectar_intencao pergunta0 =
     (let pergunta = lower pergunta0 in
      if re_search [''ataque'', ''poder'', ''for'' @ c_cedilha @ ''a'', ''dano''] pergunta
        then ''ataque''
      else if re_search [''defesa'', ''prote'' @ c_cedilha @ a_til @ ''o'',
                         ''resist'' @ e_circunflexo @ ''ncia''] pergunta
        then ''defesa''
      else if re_search [''tipo'', ''tipos'', ''elemento''] pergunta
        then ''tipo''
      else if re_search [''habilidade'', ''habilidades'', ''podere'', ''poderes''] pergunta
        then ''habilidade''
      else if re_search [''evolu'' @ c_cedilha @ a_til @ ''o'', ''evolui''] pergunta
        then ''evolucao''
      else if re_search [''fraqueza'', ''fraquezas'', ''vulnerabilidade'', ''vulnerabilidades'',
                         ''contra'', ''fraco'', ''fracos''] pergunta
        then ''fraqueza''
      else if re_search [''local'', ''encontrar'', ''onde acha'', ''habitat''] pergunta
        then ''localizacao''
      else if re_search [''comparar'', ''vs'', ''versus'', ''mais forte'', ''quem ganha''] pergunta
        then ''comparar''
      else ''geral'')"

section \<open>Values and errors\<close>

text \<open>
  The values that \<^verbatim>\<open>response.json()\<close> returns: \<^verbatim>\<open>None\<close>, booleans, integers,
  floats, strings, lists, and dictionaries with string keys. A dictionary is the list of
  its items in order, looked up with \<^const>\<open>map_of\<close>; a decoded dictionary has no key
  twice. Floats are rationals: rounding and overflow are outside the model.
\<close>

datatype json =
    JNull
  | JBool bool
  | JInt int
  | JReal rat
  | JStr string
  | JArr "json list"
  | JObj "(string \<times> json) list"

datatype py_error =
    KeyError | TypeError | AttributeError | UnboundLocalError
  | RequestException | JSONDecodeError | EOFError

definition and_then :: "py_error + 'a \<Rightarrow> ('a \<Rightarrow> py_error + 'b) \<Rightarrow> py_error + 'b" where
  "and_then r f = (case r of Inl e \<Rightarrow> Inl e | Inr v \<Rightarrow> f v)"

lemma and_then_cong [fundef_cong]:
  "r = r' \<Longrightarrow> (\<And>v. r' = Inr v \<Longrightarrow> f v = f' v) \<Longrightarrow> and_then r f = and_then r' f'"
  by (auto simp: and_then_def split: sum.splits)

text \<open>A \<^verbatim>\<open>for\<close> loop that updates a variable and stops at the first exception.\<close>

fun fold_result :: "('a \<Rightarrow> 's \<Rightarrow> py_error + 's) \<Rightarrow> 'a list \<Rightarrow> 's \<Rightarrow> py_error + 's" where
  "fold_result f [] s = Inr s"
| "fold_result f (x # xs) s = and_then (f x s) (fold_result f xs)"

lemma fold_result_cong [fundef_cong]:
  "xs = ys \<Longrightarrow> s = t \<Longrightarrow> (\<And>x s. x \<in> set ys \<Longrightarrow> f x s = g x s) \<Longrightarrow>
   fold_result f xs s = fold_result g ys t"
proof (induction ys arbitrary: xs s t)
  case Nil
  then show ?case by simp
next
  case (Cons y ys)
  then show ?case by (auto simp: and_then_def split: sum.splits)
qed

text \<open>A list comprehension whose element expression may raise.\<close>

fun map_result :: "('a \<Rightarrow> py_error + 'b) \<Rightarrow> 'a list \<Rightarrow> py_error + 'b list" where
  "map_result f [] = Inr []"
| "map_result f (x # xs) =
     and_then (f x) (\<lambda>y. and_then (map_result f xs) (\<lambda>ys. Inr (y # ys)))"

text \<open>\<^verbatim>\<open>d[key]\<close> with a string key: only a dictionary accepts it.\<close>

definition py_subscript :: "json \<Rightarrow> string \<Rightarrow> py_error + json" where
  "py_subscript d key =
     (case d of
        JObj kvs \<Rightarrow> (case map_of kvs key of Some v \<Rightarrow> Inr v | None \<Rightarrow> Inl KeyError)
      | _ \<Rightarrow> Inl TypeError)"

text \<open>\<^verbatim>\<open>d.get(key, default)\<close>: only a dictionary has the method.\<close>

definition py_get :: "json \<Rightarrow> string \<Rightarrow> json \<Rightarrow> py_error + json" where
  "py_get d key dflt =
     (case d of
        JObj kvs \<Rightarrow> (case map_of kvs key of Some v \<Rightarrow> Inr v | None \<Rightarrow> Inr dflt)
      | _ \<Rightarrow> Inl AttributeError)"

text \<open>
  \<^verbatim>\<open>key in d\<close> for a dictionary \<^verbatim>\<open>d\<close>. The source uses it on \<^verbatim>\<open>species_data\<close> after
  \<^verbatim>\<open>species_data["flavor_text_entries"]\<close> has succeeded, so on a dictionary only.
\<close>

definition py_has_key :: "json \<Rightarrow> string \<Rightarrow> bool" where
  "py_has_key d key = (case d of JObj kvs \<Rightarrow> map_of kvs key \<noteq> None | _ \<Rightarrow> False)"

text \<open>
  What a \<^verbatim>\<open>for\<close> loop iterates over: the elements of a list, the keys of a dictionary,
  the characters of a string; nothing else is iterable.
\<close>

definition py_iter :: "json \<Rightarrow> py_error + json list" where
  "py_iter v =
     (case v of
        JArr xs \<Rightarrow> Inr xs
      | JObj kvs \<Rightarrow> Inr (map (\<lambda>kv. JStr (fst kv)) kvs)
      | JStr s \<Rightarrow> Inr (map (\<lambda>c. JStr [c]) s)
      | _ \<Rightarrow> Inl TypeError)"

text \<open>Truth value of a value in a condition.\<close>

definition py_truthy :: "json \<Rightarrow> bool" where
  "py_truthy v =
     (case v of
        JNull \<Rightarrow> False
      | JBool b \<Rightarrow> b
      | JInt i \<Rightarrow> i \<noteq> 0
      | JReal r \<Rightarrow> r \<noteq> 0
      | JStr s \<Rightarrow> s \<noteq> []
      | JArr xs \<Rightarrow> xs \<noteq> []
      | JObj kvs \<Rightarrow> kvs \<noteq> [])"

text \<open>\<^verbatim>\<open>s.capitalize()\<close>: only a string has the method.\<close>

definition str_capitalize :: "json \<Rightarrow> py_error + string" where
  "str_capitalize v = (case v of JStr s \<Rightarrow> Inr (capitalize s) | _ \<Rightarrow> Inl AttributeError)"

text \<open>The number a value stands for in arithmetic and comparisons, when it is one.\<close>

definition num_val :: "json \<Rightarrow> rat option" where
  "num_val v =
     (case v of
        JBool b \<Rightarrow> Some (if b then 1 else 0)
      | JInt i \<Rightarrow> Some (of_int i)
      | JReal r \<Rightarrow> Some r
      | _ \<Rightarrow> None)"

text \<open>\<^verbatim>\<open>v / 10\<close>\<close>

definition py_div10 :: "json \<Rightarrow> py_error + json" where
  "py_div10 v = (case num_val v of Some r \<Rightarrow> Inr (JReal (r / 10)) | None \<Rightarrow> Inl TypeError)"

text \<open>
  A value used as a dictionary key: lists and dictionaries are not hashable, and numbers
  that are equal are the same key whatever their type.
\<close>

definition dict_key :: "json \<Rightarrow> py_error + json" where
  "dict_key v =
     (case v of
        JArr xs \<Rightarrow> Inl TypeError
      | JObj kvs \<Rightarrow> Inl TypeError
      | JBool b \<Rightarrow> Inr (JInt (if b then 1 else 0))
      | JReal r \<Rightarrow> Inr (if r = of_int \<lfloor>r\<rfloor> then JInt \<lfloor>r\<rfloor> else JReal r)
      | _ \<Rightarrow> Inr v)"

lemma size_item:
  "(k, v) \<in> set kvs \<Longrightarrow> size v < Suc (size_list (size_prod (\<lambda>x. 0) size) kvs)"
  by (induction kvs) auto

lemma size_map_of:
  "map_of kvs k = Some v \<Longrightarrow> size v < Suc (size_list (size_prod (\<lambda>x. 0) size) kvs)"
  by (auto dest: map_of_SomeD size_item)

lemma size_elem: "x \<in> set xs \<Longrightarrow> size (x :: json) < Suc (size_list size xs)"
  by (induction xs) auto

text \<open>\<^verbatim>\<open>x == y\<close>\<close>

function py_eq :: "json \<Rightarrow> json \<Rightarrow> bool" where
  "py_eq x y =
     (case (x, y) of
        (JNull, JNull) \<Rightarrow> True
      | (JStr s, JStr t) \<Rightarrow> s = t
      | (JArr xs, JArr ys) \<Rightarrow> list_all2 py_eq xs ys
      | (JObj kvs, JObj kvs') \<Rightarrow>
          length kvs = length kvs'
          \<and> list_all (\<lambda>kv. case map_of kvs' (fst kv) of
                             Some v' \<Rightarrow> py_eq (snd kv) v' | None \<Rightarrow> False) kvs
      | _ \<Rightarrow> (case (num_val x, num_val y) of (Some p, Some q) \<Rightarrow> p = q | _ \<Rightarrow> False))"
  by pat_completeness auto
termination
  by (relation "measure (\<lambda>(x, y). size x)") (auto simp: size_elem size_item)


declare py_eq.simps [simp del]

text \<open>
  \<^verbatim>\<open>x > y\<close>: numbers by value, strings and lists lexicographically; every other pair
  of values raises \<^verbatim>\<open>TypeError\<close>. Two lists are compared at the first position where
  their elements are not equal.
\<close>

fun py_gt :: "json \<Rightarrow> json \<Rightarrow> py_error + bool"
  and py_gt_list :: "json list \<Rightarrow> json list \<Rightarrow> py_error + bool" where
  "py_gt (JStr s) (JStr t) = Inr (t < s)"
| "py_gt (JArr xs) (JArr ys) = py_gt_list xs ys"
| "py_gt x y =
     (case (num_val x, num_val y) of (Some p, Some q) \<Rightarrow> Inr (q < p) | _ \<Rightarrow> Inl TypeError)"
| "py_gt_list [] ys = Inr False"
| "py_gt_list (x # xs) [] = Inr True"
| "py_gt_list (x # xs) (y # ys) = (if py_eq x y then py_gt_list xs ys else py_gt x y)"

text \<open>Decimal digits of a number, as \<^verbatim>\<open>str\<close> gives them for an \<^verbatim>\<open>int\<close>.\<close>

function show_nat :: "nat \<Rightarrow> string" where
  "show_nat n = (if n < 10 then [digits ! n] else show_nat (n div 10) @ [digits ! (n mod 10)])"
  by pat_completeness auto
termination
  by (relation "measure id") auto

declare show_nat.simps [simp del]

definition show_int :: "int \<Rightarrow> string" where
  "show_int i = (if i < 0 then ''-'' @ show_nat (nat (- i)) else show_nat (nat i))"

section \<open>The world outside\<close>

text \<open>
  \<^verbatim>\<open>requests.get(url, timeout=5)\<close> either raises (no connection, timeout) or returns a
  response with a status code and a body; \<^verbatim>\<open>response.json()\<close> raises when the body is
  not JSON, which is the body \<open>None\<close> here.
\<close>

datatype http_result = RequestFailed | Response int "json option"

text \<open>
  What a run of the program depends on besides its own state: the answer of the network
  to each URL, the line that the user types at a prompt of \<^verbatim>\<open>input\<close> (none at end of
  input), and the text that an f-string gives for a float, a list or a dictionary, which
  is not modelled.
\<close>

record host =
  http_get :: "string \<Rightarrow> http_result"
  console_input :: "string \<Rightarrow> string option"
  render :: "json \<Rightarrow> string"

definition requests_get :: "host \<Rightarrow> json \<Rightarrow> py_error + int \<times> json option" where
  "requests_get w url =
     (case url of
        JStr u \<Rightarrow> (case http_get w u of
                     RequestFailed \<Rightarrow> Inl RequestException
                   | Response status_code body \<Rightarrow> Inr (status_code, body))
      | _ \<Rightarrow> Inl RequestException)"

definition response_json :: "int \<times> json option \<Rightarrow> py_error + json" where
  "response_json response = (case snd response of Some v \<Rightarrow> Inr v | None \<Rightarrow> Inl JSONDecodeError)"

text \<open>An interpolated value \<^verbatim>\<open>{v}\<close> of an f-string.\<close>

definition py_format :: "host \<Rightarrow> json \<Rightarrow> string" where
  "py_format w v =
     (case v of
        JNull \<Rightarrow> ''None''
      | JBool b \<Rightarrow> (if b then ''True'' else ''False'')
      | JInt i \<Rightarrow> show_int i
      | JStr s \<Rightarrow> s
      | _ \<Rightarrow> render w v)"

section \<open>Data resolution\<close>

text \<open>The dictionary that both \<^verbatim>\<open>buscar_na_pokeapi\<close> and \<^verbatim>\<open>buscar_no_json\<close> return.\<close>

record pokemon =
  nome :: string
  tipos :: "string list"
  habilidades :: "string list"
  altura :: json
  peso :: json
  stats :: "(json \<times> json) list"
  descricao :: string
  evolucao :: "string list"
  fonte :: string

text \<open>
  The cache file \<^verbatim>\<open>pokedex_gen1.json\<close> is not part of the sources. An entry is typed
  after the way the code reads it: \<^verbatim>\<open>nome\<close> and \<^verbatim>\<open>stats\<close> are read by subscript and so
  are present, \<^verbatim>\<open>nome\<close> a string and \<^verbatim>\<open>stats\<close> a dictionary; the fields read with
  \<^verbatim>\<open>.get\<close> may be absent.
\<close>

record cache_entry =
  c_nome :: string
  c_tipos :: "string list option"
  c_habilidades :: "string list option"
  c_altura :: "json option"
  c_peso :: "json option"
  c_stats :: "(string \<times> json) list"
  c_descricao :: "string option"
  c_evolucao :: "string list option"

definition NOMES_VALIDOS :: "cache_entry list \<Rightarrow> string list" where
  "NOMES_VALIDOS cache_local = map (\<lambda>p. lower (c_nome p)) cache_local"

definition descricao_nao_disponivel :: string where
  "descricao_nao_disponivel =
     ''Descri'' @ c_cedilha @ a_til @ ''o n'' @ a_til @ ''o dispon'' @ i_agudo @ ''vel.''"

definition descricao_nao_encontrada :: string where
  "descricao_nao_encontrada =
     ''Descri'' @ c_cedilha @ a_til @ ''o n'' @ a_til @ ''o encontrada.''"

definition nao_evolui :: string where
  "nao_evolui = ''N'' @ a_til @ ''o evolui''"

text \<open>
  The dictionary comprehension of the statistics: later entries replace earlier ones
  of the same name.
\<close>

definition stat_entry :: "json \<Rightarrow> (json \<times> json) list \<Rightarrow> py_error + (json \<times> json) list" where
  "stat_entry stat acc =
     and_then (py_subscript stat ''stat'') (\<lambda>s.
     and_then (py_subscript s ''name'') (\<lambda>name.
     and_then (py_subscript stat ''base_stat'') (\<lambda>base_stat.
     and_then (dict_key name) (\<lambda>key.
       Inr (AList.update key base_stat acc)))))"

definition processar_stats :: "json \<Rightarrow> py_error + (json \<times> json) list" where
  "processar_stats poke_data =
     and_then (py_get poke_data ''stats'' (JArr [])) (\<lambda>v.
     and_then (py_iter v) (\<lambda>entries. fold_result stat_entry entries []))"

text \<open>
  The generator handed to \<^verbatim>\<open>next\<close>: entries are examined in order, and none after the
  first English one.
\<close>

fun first_en :: "json list \<Rightarrow> py_error + string option" where
  "first_en [] = Inr None"
| "first_en (entry # rest) =
     and_then (py_subscript entry ''language'') (\<lambda>language.
     and_then (py_subscript language ''name'') (\<lambda>name.
       if name = JStr ''en'' then
         and_then (py_subscript entry ''flavor_text'') (\<lambda>flavor_text.
           case flavor_text of
             JStr s \<Rightarrow> Inr (Some (replace_char (CHR 0x0A) '' '' s))
           | _ \<Rightarrow> Inl AttributeError)
       else first_en rest))"

definition processar_descricao :: "json \<Rightarrow> py_error + string" where
  "processar_descricao species_data =
     and_then (py_subscript species_data ''flavor_text_entries'') (\<lambda>v.
     and_then (py_iter v) (\<lambda>entries.
     and_then (first_en entries) (\<lambda>found.
       Inr (case found of Some d \<Rightarrow> d | None \<Rightarrow> descricao_nao_encontrada))))"

lemma size_py_iter:
  assumes "py_get chain key (JArr []) = Inr v" and "py_iter v = Inr xs" and "x \<in> set xs"
  shows "size x < size chain"
proof -
  obtain kvs where chain: "chain = JObj kvs"
    using assms(1) by (cases chain) (auto simp: py_get_def)
  have "xs \<noteq> []" using assms(3) by auto
  then have "v \<noteq> JArr []" using assms(2) by (auto simp: py_iter_def)
  then have v: "map_of kvs key = Some v"
    using assms(1) by (auto simp: py_get_def chain split: option.splits)
  have "size x \<le> size v"
    using assms(2,3) by (cases v) (auto simp: py_iter_def dest: size_elem)
  moreover have "size v < size chain"
    using v by (auto simp: chain dest: size_map_of)
  ultimately show ?thesis by simp
qed

text \<open>
  The nested function \<^verbatim>\<open>extrair_evolucoes\<close>. It appends to the list \<^verbatim>\<open>evolucoes\<close> of
  the enclosing function; here the list is passed in and returned.
\<close>

function extrair_evolucoes :: "string \<Rightarrow> json \<Rightarrow> string list \<Rightarrow> py_error + string list" where
  "extrair_evolucoes nome_corrigido chain evolucoes =
     and_then (py_subscript chain ''species'') (\<lambda>species.
     and_then (py_subscript species ''name'') (\<lambda>name.
     and_then (str_capitalize name) (\<lambda>nome_evo.
     and_then (py_get chain ''evolves_to'' (JArr [])) (\<lambda>evolves_to.
     and_then (py_iter evolves_to) (\<lambda>evos.
       fold_result (extrair_evolucoes nome_corrigido) evos
         (if lower nome_evo \<noteq> nome_corrigido then evolucoes @ [nome_evo] else evolucoes))))))"
  by pat_completeness auto
termination
  by (relation "measure (\<lambda>(nome_corrigido, chain, evolucoes). size chain)")
     (auto dest: size_py_iter)

declare extrair_evolucoes.simps [simp del]


text \<open>
  The evolution block: \<^verbatim>\<open>evolucao\<close> starts as the one-element list of
  \<^const>\<open>nao_evolui\<close> and is replaced when the chain gives at least one name.
\<close>

definition processar_evolucao :: "host \<Rightarrow> string \<Rightarrow> json \<Rightarrow> py_error + string list" where
  "processar_evolucao w nome_corrigido species_data =
     (if py_has_key species_data ''evolution_chain'' then
        and_then (py_subscript species_data ''evolution_chain'') (\<lambda>evolution_chain.
        and_then (py_subscript evolution_chain ''url'') (\<lambda>chain_url.
        and_then (requests_get w chain_url) (\<lambda>chain_response.
        and_then (response_json chain_response) (\<lambda>chain_data.
          if py_truthy chain_data then
            and_then (py_subscript chain_data ''chain'') (\<lambda>chain.
            and_then (extrair_evolucoes nome_corrigido chain []) (\<lambda>evolucoes.
              Inr (if evolucoes \<noteq> [] then evolucoes else [nao_evolui])))
          else Inr [nao_evolui]))))
      else Inr [nao_evolui])"

text \<open>
  The description and evolution part of \<^verbatim>\<open>buscar_na_pokeapi\<close>. It gives the value of
  \<^verbatim>\<open>descricao\<close> and that of \<^verbatim>\<open>evolucao\<close>; the source assigns \<^verbatim>\<open>evolucao\<close> only inside
  the branch for status 200, so after the other branch the variable has no value.
\<close>

definition processar_species ::
  "host \<Rightarrow> string \<Rightarrow> string \<Rightarrow> py_error + string \<times> string list option" where
  "processar_species w nome_corrigido species_url =
     and_then (requests_get w (JStr species_url)) (\<lambda>species_response.
       if fst species_response = 200 then
         and_then (response_json species_response) (\<lambda>species_data.
         and_then (processar_descricao species_data) (\<lambda>descricao.
         and_then (processar_evolucao w nome_corrigido species_data) (\<lambda>evolucao.
           Inr (descricao, Some evolucao))))
       else Inr (descricao_nao_disponivel, None))"

text \<open>
  \<^verbatim>\<open>[t[inner]["name"].capitalize() for t in poke_data.get(key, [])]\<close>, for the types
  and the abilities.
\<close>

definition nomes_de :: "json \<Rightarrow> string \<Rightarrow> string \<Rightarrow> py_error + string list" where
  "nomes_de poke_data key inner =
     and_then (py_get poke_data key (JArr [])) (\<lambda>v.
     and_then (py_iter v) (\<lambda>items.
       map_result (\<lambda>t. and_then (py_subscript t inner) (\<lambda>x.
                        and_then (py_subscript x ''name'') str_capitalize)) items))"

text \<open>
  The body of the \<^verbatim>\<open>try\<close> block of \<^verbatim>\<open>buscar_na_pokeapi\<close>: an exception, or the value
  returned (\<^verbatim>\<open>None\<close> when the first request does not have status 200).
\<close>

definition buscar_na_pokeapi_try ::
  "host \<Rightarrow> cache_entry list \<Rightarrow> string \<Rightarrow> py_error + pokemon option" where
  "buscar_na_pokeapi_try w cache_local nome0 =
     (let nome_limpo = limpar_nome nome0;
          nome_corrigido = corrigir_nome_pokemon (NOMES_VALIDOS cache_local) nome_limpo;
          nome_api = normalizar_nome_para_api nome_corrigido;
          poke_url = ''https://pokeapi.co/api/v2/pokemon/'' @ nome_api;
          species_url = ''https://pokeapi.co/api/v2/pokemon-species/'' @ nome_api
      in and_then (requests_get w (JStr poke_url)) (\<lambda>poke_response.
           if fst poke_response \<noteq> 200 then Inr None
           else
             and_then (response_json poke_response) (\<lambda>poke_data.
             and_then (processar_stats poke_data) (\<lambda>stats0.
             and_then (processar_species w nome_corrigido species_url) (\<lambda>(descricao0, evolucao0).
             and_then (nomes_de poke_data ''types'' ''type'') (\<lambda>tipos0.
             and_then (nomes_de poke_data ''abilities'' ''ability'') (\<lambda>habilidades0.
             and_then (and_then (py_get poke_data ''height'' (JInt 0)) py_div10) (\<lambda>altura0.
             and_then (and_then (py_get poke_data ''weight'' (JInt 0)) py_div10) (\<lambda>peso0.
               case evolucao0 of
                 None \<Rightarrow> Inl UnboundLocalError
               | Some evolucao1 \<Rightarrow>
                   Inr (Some \<lparr>nome = capitalize nome_corrigido,
                              tipos = tipos0,
                              habilidades = habilidades0,
                              altura = altura0,
                              peso = peso0,
                              stats = stats0,
                              descricao = descricao0,
                              evolucao = evolucao1,
                              fonte = ''Pok'' @ e_agudo @ ''API''\<rparr>))))))))))"

text \<open>\<^verbatim>\<open>except Exception: return None\<close>\<close>

definition buscar_na_pokeapi :: "host \<Rightarrow> cache_entry list \<Rightarrow> string \<Rightarrow> pokemon option" where
  "buscar_na_pokeapi w cache_local nome0 =
     (case buscar_na_pokeapi_try w cache_local nome0 of Inl e \<Rightarrow> None | Inr r \<Rightarrow> r)"

text \<open>The two addresses that \<^verbatim>\<open>buscar_na_pokeapi\<close> asks for a name.\<close>

definition url_pokemon :: "cache_entry list \<Rightarrow> string \<Rightarrow> string" where
  "url_pokemon cache_local nome0 =
     ''https://pokeapi.co/api/v2/pokemon/''
     @ normalizar_nome_para_api
         (corrigir_nome_pokemon (NOMES_VALIDOS cache_local) (limpar_nome nome0))"

definition url_species :: "cache_entry list \<Rightarrow> string \<Rightarrow> string" where
  "url_species cache_local nome0 =
     ''https://pokeapi.co/api/v2/pokemon-species/''
     @ normalizar_nome_para_api
         (corrigir_nome_pokemon (NOMES_VALIDOS cache_local) (limpar_nome nome0))"

text \<open>\<^verbatim>\<open>poke["stats"].get(campo)\<close>: the value, or \<^verbatim>\<open>None\<close> when the field is absent.\<close>

definition stat_do_cache :: "cache_entry \<Rightarrow> string \<Rightarrow> json" where
  "stat_do_cache poke campo = (case map_of (c_stats poke) campo of Some v \<Rightarrow> v | None \<Rightarrow> JNull)"

definition registro_do_cache :: "cache_entry \<Rightarrow> pokemon" where
  "registro_do_cache poke =
     \<lparr>nome = c_nome poke,
      tipos = (case c_tipos poke of Some v \<Rightarrow> v | None \<Rightarrow> []),
      habilidades = (case c_habilidades poke of Some v \<Rightarrow> v | None \<Rightarrow> []),
      altura = (case c_altura poke of Some v \<Rightarrow> v | None \<Rightarrow> JStr ''N/A''),
      peso = (case c_peso poke of Some v \<Rightarrow> v | None \<Rightarrow> JStr ''N/A''),
      stats = [(JStr ''hp'', stat_do_cache poke ''hp''),
               (JStr ''attack'', stat_do_cache poke ''ataque''),
               (JStr ''defense'', stat_do_cache poke ''defesa''),
               (JStr ''special-attack'', stat_do_cache poke ''ataque_especial''),
               (JStr ''special-defense'', stat_do_cache poke ''defesa_especial''),
               (JStr ''speed'', stat_do_cache poke ''velocidade'')],
      descricao = (case c_descricao poke of Some v \<Rightarrow> v | None \<Rightarrow> descricao_nao_disponivel),
      evolucao = (case c_evolucao poke of Some v \<Rightarrow> v | None \<Rightarrow> [nao_evolui]),
      fonte = ''Cache Local''\<rparr>"

definition buscar_no_json :: "cache_entry list \<Rightarrow> string \<Rightarrow> pokemon option" where
  "buscar_no_json cache_local nome0 =
     (let nome_corrigido = corrigir_nome_pokemon (NOMES_VALIDOS cache_local) (limpar_nome nome0)
      in map_option registro_do_cache
           (find (\<lambda>poke. lower (c_nome poke) = nome_corrigido) cache_local))"

text \<open>\<^verbatim>\<open>buscar_na_pokeapi(nome) or buscar_no_json(nome)\<close>\<close>

definition buscar :: "host \<Rightarrow> cache_entry list \<Rightarrow> string \<Rightarrow> pokemon option" where
  "buscar w cache_local nome0 =
     (case buscar_na_pokeapi w cache_local nome0 of
        Some dados \<Rightarrow> Some dados
      | None \<Rightarrow> buscar_no_json cache_local nome0)"


section \<open>Answers\<close>

text \<open>\<^verbatim>\<open>re.findall(r'[A-Z][a-z]+', texto)\<close>\<close>

function findall_maiusculas :: "string \<Rightarrow> string list" where
  "findall_maiusculas [] = []"
| "findall_maiusculas (c # cs) =
     (if is_upper c \<and> takeWhile is_lower cs \<noteq> []
      then (c # takeWhile is_lower cs) # findall_maiusculas (dropWhile is_lower cs)
      else findall_maiusculas cs)"
  by pat_completeness auto
termination
  by (relation "measure length") (auto simp: le_imp_less_Suc length_dropWhile_le)

text \<open>\<^verbatim>\<open>dados['stats'][k]\<close> and \<^verbatim>\<open>dados['stats'].get(k, 0)\<close>\<close>

definition stat_item :: "pokemon \<Rightarrow> string \<Rightarrow> py_error + json" where
  "stat_item dados k =
     (case map_of (stats dados) (JStr k) of Some v \<Rightarrow> Inr v | None \<Rightarrow> Inl KeyError)"

definition stat_get :: "pokemon \<Rightarrow> string \<Rightarrow> json" where
  "stat_get dados k = (case map_of (stats dados) (JStr k) of Some v \<Rightarrow> v | None \<Rightarrow> JInt 0)"

definition locais :: "string \<rightharpoonup> string" where
  "locais = map_of
     [(''Pikachu'', ''Floresta de Viridian''),
      (''Charizard'', ''Montanha da Liga Pok'' @ e_agudo @ ''mon''),
      (''Blastoise'', ''Lagos do Vale Celeste'')]"

definition dica_de_uso :: string where
  "dica_de_uso =
     ''Por favor, pergunte algo como '' @ [CHR 0x27] @ ''Quem '' @ e_agudo
     @ '' mais forte: Charizard ou Blastoise?'' @ [CHR 0x27]"

text \<open>The body of the loop over the four compared statistics.\<close>

definition comparar_stat ::
  "host \<Rightarrow> string \<Rightarrow> string \<Rightarrow> pokemon \<Rightarrow> pokemon \<Rightarrow> string \<Rightarrow> py_error + string" where
  "comparar_stat w poke1 poke2 dados1 dados2 stat =
     (let val1 = stat_get dados1 stat; val2 = stat_get dados2 stat in
      and_then (py_gt val1 val2) (\<lambda>maior.
        if maior then
          Inr (poke1 @ '' tem mais '' @ stat @ '' ('' @ py_format w val1 @ '' vs ''
               @ py_format w val2 @ '')'')
        else
          and_then (py_gt val2 val1) (\<lambda>menor.
            if menor then
              Inr (poke2 @ '' tem mais '' @ stat @ '' ('' @ py_format w val2 @ '' vs ''
                   @ py_format w val1 @ '')'')
            else Inr (''Empate em '' @ stat @ '' ('' @ py_format w val1 @ '')''))))"

text \<open>The text returned when both compared names have data.\<close>

definition texto_comparacao ::
  "host \<Rightarrow> string \<Rightarrow> string \<Rightarrow> pokemon \<Rightarrow> pokemon \<Rightarrow> py_error + string" where
  "texto_comparacao w poke1 poke2 dados1 dados2 =
     and_then (map_result (comparar_stat w poke1 poke2 dados1 dados2)
                 [''attack'', ''defense'', ''hp'', ''speed'']) (\<lambda>comparacao.
     and_then (stat_item dados1 ''attack'') (\<lambda>a1.
     and_then (stat_item dados2 ''attack'') (\<lambda>a2.
     and_then (stat_item dados1 ''defense'') (\<lambda>d1.
     and_then (stat_item dados2 ''defense'') (\<lambda>d2.
     and_then (stat_item dados1 ''hp'') (\<lambda>h1.
     and_then (stat_item dados2 ''hp'') (\<lambda>h2.
     and_then (stat_item dados1 ''speed'') (\<lambda>s1.
     and_then (stat_item dados2 ''speed'') (\<lambda>s2.
       Inr (emoji_balanca @ '' Compara'' @ c_cedilha @ a_til @ ''o entre '' @ poke1 @ '' e ''
            @ poke2 @ '':'' @ [CHR 0x0A]
            @ emoji_fogo @ '' Ataque: '' @ py_format w a1 @ '' vs '' @ py_format w a2 @ [CHR 0x0A]
            @ emoji_escudo @ '' Defesa: '' @ py_format w d1 @ '' vs '' @ py_format w d2
            @ [CHR 0x0A]
            @ emoji_coracao @ '' HP: '' @ py_format w h1 @ '' vs '' @ py_format w h2 @ [CHR 0x0A]
            @ emoji_raio @ '' Velocidade: '' @ py_format w s1 @ '' vs '' @ py_format w s2
            @ [CHR 0x0A] @ [CHR 0x0A]
            @ emoji_lupa @ '' An'' @ a_agudo @ ''lise:'' @ [CHR 0x0A]
            @ join [CHR 0x0A] (take 3 comparacao)))))))))))"

text \<open>The branch of \<^verbatim>\<open>gerar_resposta\<close> for the intent \<^verbatim>\<open>comparar\<close>.\<close>

definition resposta_comparar ::
  "host \<Rightarrow> cache_entry list \<Rightarrow> MemoriaConversa \<Rightarrow> py_error + string" where
  "resposta_comparar w cache_local memoria =
     (let pokemons = findall_maiusculas (contexto memoria) in
      if 2 \<le> length pokemons then
        (let poke1 = pokemons ! 0; poke2 = pokemons ! 1;
             dados1 = buscar w cache_local poke1;
             dados2 = buscar w cache_local poke2
         in case (dados1, dados2) of
              (Some d1, Some d2) \<Rightarrow> texto_comparacao w poke1 poke2 d1 d2
            | _ \<Rightarrow> Inr dica_de_uso)
      else Inr dica_de_uso)"

definition resposta_geral :: "host \<Rightarrow> pokemon \<Rightarrow> py_error + string" where
  "resposta_geral w dados =
     and_then (stat_item dados ''hp'') (\<lambda>hp.
     and_then (stat_item dados ''attack'') (\<lambda>attack.
     and_then (stat_item dados ''defense'') (\<lambda>defense.
     and_then (stat_item dados ''speed'') (\<lambda>speed.
       Inr (emoji_livro @ '' '' @ nome dados @ '' ('' @ fonte dados @ '')'' @ [CHR 0x0A]
            @ emoji_folha @ '' Tipos: '' @ join '', '' (tipos dados) @ [CHR 0x0A]
            @ emoji_brilho @ '' Habilidades: '' @ join '', '' (habilidades dados) @ [CHR 0x0A]
            @ emoji_livro_aberto @ '' Descri'' @ c_cedilha @ a_til @ ''o: '' @ descricao dados
            @ [CHR 0x0A]
            @ emoji_regua @ '' Altura: '' @ py_format w (altura dados) @ ''m | Peso: ''
            @ py_format w (peso dados) @ ''kg'' @ [CHR 0x0A]
            @ emoji_espadas @ '' Stats:'' @ [CHR 0x0A]
            @ ''  - HP: '' @ py_format w hp @ [CHR 0x0A]
            @ ''  - Ataque: '' @ py_format w attack @ [CHR 0x0A]
            @ ''  - Defesa: '' @ py_format w defense @ [CHR 0x0A]
            @ ''  - Velocidade: '' @ py_format w speed @ [CHR 0x0A]
            @ emoji_cristal @ '' Evolu'' @ c_cedilha @ a_til @ ''o: ''
            @ join '', '' (evolucao dados))))))"

text \<open>
  \<^verbatim>\<open>gerar_resposta\<close>. The memory is a module variable of the source, read by the
  comparison branch; here it is an argument, as are the cache and the host.
\<close>

definition gerar_resposta ::
  "host \<Rightarrow> cache_entry list \<Rightarrow> MemoriaConversa \<Rightarrow> string \<Rightarrow> pokemon \<Rightarrow> py_error + string" where
  "gerar_resposta w cache_local memoria intencao dados =
     (if intencao = ''ataque'' then
        and_then (stat_item dados ''attack'') (\<lambda>v.
          Inr (emoji_espadas @ '' '' @ nome dados @ '' tem '' @ py_format w v
               @ '' de ataque base!''))
      else if intencao = ''defesa'' then
        and_then (stat_item dados ''defense'') (\<lambda>v.
          Inr (emoji_escudo @ '' '' @ nome dados @ '' tem '' @ py_format w v
               @ '' de defesa base!''))
      else if intencao = ''tipo'' then
        Inr (emoji_folha @ '' '' @ nome dados @ '' '' @ e_agudo @ '' do tipo: ''
             @ join '', '' (tipos dados))
      else if intencao = ''habilidade'' then
        Inr (emoji_brilho @ '' Habilidades de '' @ nome dados @ '': ''
             @ join '', '' (habilidades dados))
      else if intencao = ''evolucao'' then
        Inr (emoji_cristal @ '' '' @ nome dados @ '' evolui para: ''
             @ join '', '' (evolucao dados))
      else if intencao = ''fraqueza'' then
        (let fraquezas = calcular_fraquezas (tipos dados) in
         Inr (emoji_aviso @ '' '' @ nome dados @ '' '' @ e_agudo @ '' fraco contra: ''
              @ (if fraquezas \<noteq> [] then join '', '' fraquezas
                 else ''Nenhum tipo em especial'')))
      else if intencao = ''localizacao'' then
        (let local = (case locais (nome dados) of
                        Some l \<Rightarrow> l
                      | None \<Rightarrow> ''Localiza'' @ c_cedilha @ a_til
                                @ ''o desconhecida na primeira gera'' @ c_cedilha @ a_til @ ''o'')
         in Inr (emoji_mapa @ '' '' @ nome dados @ '' pode ser encontrado em: '' @ local))
      else if intencao = ''comparar'' then resposta_comparar w cache_local memoria
      else resposta_geral w dados)"

section \<open>The orchestrator\<close>

definition nao_identifiquei :: string where
  "nao_identifiquei =
     emoji_interrogacao @ '' N'' @ a_til @ ''o identifiquei um Pok'' @ e_agudo
     @ ''mon na sua pergunta. Poderia ser mais espec'' @ i_agudo @ ''fico?''"

definition nao_encontrei :: "string list \<Rightarrow> string" where
  "nao_encontrei nomes_detectados =
     emoji_xis @ '' N'' @ a_til @ ''o encontrei dados sobre '' @ join '', '' nomes_detectados"

text \<open>
  The fallback to the last creature: \<^verbatim>\<open>not nomes_detectados and memoria.ultimo_pokemon\<close>
  holds when nothing was extracted and the last name is neither \<^verbatim>\<open>None\<close> nor empty.
\<close>

definition nomes_ou_ultimo :: "MemoriaConversa \<Rightarrow> string list \<Rightarrow> string list" where
  "nomes_ou_ultimo memoria nomes_detectados =
     (case ultimo_pokemon memoria of
        Some ultimo \<Rightarrow>
          (if nomes_detectados = [] \<and> ultimo \<noteq> [] then [ultimo] else nomes_detectados)
      | None \<Rightarrow> nomes_detectados)"

text \<open>
  The confirmation for ambiguous names. \<^verbatim>\<open>input\<close> raises \<^verbatim>\<open>EOFError\<close> at the end of
  the input.
\<close>

definition pergunta_confirmacao :: "string list \<Rightarrow> string" where
  "pergunta_confirmacao nomes_detectados =
     ''Voc'' @ e_circunflexo @ '' quis dizer '' @ nomes_detectados ! 0 @ '' ou ''
     @ nomes_detectados ! 1 @ ''? (1/2): ''"

definition confirmar :: "host \<Rightarrow> string list \<Rightarrow> py_error + string list" where
  "confirmar w nomes_detectados =
     (if 1 < length nomes_detectados then
        (case console_input w (pergunta_confirmacao nomes_detectados) of
           None \<Rightarrow> Inl EOFError
         | Some confirmacao \<Rightarrow>
             Inr [if confirmacao = ''1'' then nomes_detectados ! 0 else nomes_detectados ! 1])
      else Inr nomes_detectados)"

text \<open>The search loop: the data of the first name that has any.\<close>

fun buscar_primeiro :: "host \<Rightarrow> cache_entry list \<Rightarrow> string list \<Rightarrow> pokemon option" where
  "buscar_primeiro w cache_local [] = None"
| "buscar_primeiro w cache_local (nome0 # resto) =
     (case buscar w cache_local nome0 of
        Some dados \<Rightarrow> Some dados
      | None \<Rightarrow> buscar_primeiro w cache_local resto)"

text \<open>
  \<^verbatim>\<open>responder\<close>: what the call returns or raises, and the memory after it.
\<close>

definition responder ::
  "host \<Rightarrow> cache_entry list \<Rightarrow> MemoriaConversa \<Rightarrow> string
     \<Rightarrow> (py_error + string) \<times> MemoriaConversa" where
  "responder w cache_local memoria pergunta =
     (let intencao = detectar_intencao pergunta;
          nomes_detectados =
            nomes_ou_ultimo memoria
              (extrair_nomes_de_pokemon (NOMES_VALIDOS cache_local) pergunta)
      in case confirmar w nomes_detectados of
           Inl e \<Rightarrow> (Inl e, memoria)
         | Inr nomes \<Rightarrow>
             if nomes = [] then (Inr nao_identifiquei, memoria)
             else
               (case buscar_primeiro w cache_local nomes of
                  None \<Rightarrow> (Inr (nao_encontrei nomes), memoria)
                | Some dados \<Rightarrow>
                    (let memoria1 = memoria\<lparr>ultimo_pokemon := Some (nome dados)\<rparr> in
                     case gerar_resposta w cache_local memoria1 intencao dados of
                       Inl e \<Rightarrow> (Inl e, memoria1)
                     | Inr resposta \<Rightarrow> (Inr resposta, adicionar memoria1 pergunta resposta))))"

section \<open>Reference notions\<close>

text \<open>
  An evolution chain as a tree of species names, the names of a tree in pre-order (a node
  before its branches, the branches in order), and the list that the specification
  describes: the names in pre-order without those that are the corrected name when
  lower-cased, each capitalised for display. \<open>representa\<close> says that a value read from
  the network has the shape of a tree: a dictionary with the name under
  \<^verbatim>\<open>species\<close>/\<^verbatim>\<open>name\<close> and the branches, if any, under \<^verbatim>\<open>evolves_to\<close>; other
  keys may be present.
\<close>

datatype cadeia = Cadeia string "cadeia list"

fun pre_ordem :: "cadeia \<Rightarrow> string list" where
  "pre_ordem (Cadeia n filhos) = n # concat (map pre_ordem filhos)"

fun representa :: "json \<Rightarrow> cadeia \<Rightarrow> bool" where
  "representa chain (Cadeia n filhos) \<longleftrightarrow>
     and_then (py_subscript chain ''species'') (\<lambda>species. py_subscript species ''name'')
       = Inr (JStr n)
     \<and> (case and_then (py_get chain ''evolves_to'' (JArr [])) py_iter of
          Inr evos \<Rightarrow> list_all2 representa evos filhos
        | Inl e \<Rightarrow> False)"

definition nomes_evolucao :: "string \<Rightarrow> cadeia \<Rightarrow> string list" where
  "nomes_evolucao nome_corrigido arvore =
     map capitalize (filter (\<lambda>n. lower n \<noteq> nome_corrigido) (pre_ordem arvore))"

text \<open>The dictionary key that one entry of the \<^verbatim>\<open>stats\<close> list of a payload gives.\<close>

definition stat_key :: "json \<Rightarrow> py_error + json" where
  "stat_key stat =
     and_then (py_subscript stat ''stat'') (\<lambda>s. and_then (py_subscript s ''name'') dict_key)"

text \<open>The keys that the entries of the \<^verbatim>\<open>stats\<close> list of a payload give, in order.\<close>

definition chaves_dos_stats :: "json \<Rightarrow> json list" where
  "chaves_dos_stats poke_data =
     (case and_then (py_get poke_data ''stats'' (JArr [])) py_iter of
        Inr entries \<Rightarrow>
          concat (map (\<lambda>e. case stat_key e of Inr k \<Rightarrow> [k] | Inl x \<Rightarrow> []) entries)
      | Inl x \<Rightarrow> [])"


section \<open>Example data\<close>

text \<open>
  A host whose network is down and whose user answers 2 at every prompt, and a cache
  entry; they serve as concrete inputs below.
\<close>

definition rede_fora :: host where
  "rede_fora =
     \<lparr>http_get = (\<lambda>url. RequestFailed), console_input = (\<lambda>p. Some ''2''),
      render = (\<lambda>v. [])\<rparr>"

definition pikachu_cache :: cache_entry where
  "pikachu_cache =
     \<lparr>c_nome = ''Pikachu'', c_tipos = Some [''Electric''], c_habilidades = Some [''Static''],
      c_altura = Some (JReal (4 / 10)), c_peso = Some (JInt 6),
      c_stats = [(''hp'', JInt 35), (''ataque'', JInt 55), (''defesa'', JInt 40),
                 (''velocidade'', JInt 90)],
      c_descricao = None, c_evolucao = Some [''Raichu'']\<rparr>"

text \<open>
  Bodies as the remote service sends them for Pikachu, cut down to the fields that are
  read, and a host that answers the three addresses involved with a chosen body for the
  creature and chosen results for the species and the chain.
\<close>

definition pikachu_api :: json where
  "pikachu_api =
     JObj [(''name'', JStr ''pikachu''), (''height'', JInt 4), (''weight'', JInt 60),
           (''types'', JArr [JObj [(''slot'', JInt 1),
                                   (''type'', JObj [(''name'', JStr ''electric'')])]]),
           (''abilities'', JArr [JObj [(''ability'', JObj [(''name'', JStr ''static'')])]]),
           (''stats'',
            JArr [JObj [(''base_stat'', JInt 35), (''stat'', JObj [(''name'', JStr ''hp'')])],
                  JObj [(''base_stat'', JInt 55), (''stat'', JObj [(''name'', JStr ''attack'')])],
                  JObj [(''base_stat'', JInt 40), (''stat'', JObj [(''name'', JStr ''defense'')])],
                  JObj [(''base_stat'', JInt 50),
                        (''stat'', JObj [(''name'', JStr ''special-attack'')])],
                  JObj [(''base_stat'', JInt 50),
                        (''stat'', JObj [(''name'', JStr ''special-defense'')])],
                  JObj [(''base_stat'', JInt 90), (''stat'', JObj [(''name'', JStr ''speed'')])]])]"

definition pikachu_species :: json where
  "pikachu_species =
     JObj [(''flavor_text_entries'',
            JArr [JObj [(''flavor_text'', JStr (''It stores'' @ [CHR 0x0A] @ ''electricity.'')),
                        (''language'', JObj [(''name'', JStr ''en'')])]]),
           (''evolution_chain'',
            JObj [(''url'', JStr ''https://pokeapi.co/api/v2/evolution-chain/10/'')])]"

definition pichu_chain :: json where
  "pichu_chain =
     JObj [(''species'', JObj [(''name'', JStr ''pichu'')]),
           (''evolves_to'',
            JArr [JObj [(''species'', JObj [(''name'', JStr ''pikachu'')]),
                        (''evolves_to'',
                         JArr [JObj [(''species'', JObj [(''name'', JStr ''raichu'')]),
                                     (''evolves_to'', JArr [])]])]])]"

definition pichu_chain_data :: json where
  "pichu_chain_data = JObj [(''id'', JInt 10), (''chain'', pichu_chain)]"

definition pichu_arvore :: cadeia where
  "pichu_arvore = Cadeia ''pichu'' [Cadeia ''pikachu'' [Cadeia ''raichu'' []]]"

definition pokeapi :: "json \<Rightarrow> http_result \<Rightarrow> http_result \<Rightarrow> host" where
  "pokeapi poke_data species chain =
     \<lparr>http_get = (\<lambda>url.
        if url = ''https://pokeapi.co/api/v2/pokemon/pikachu'' then Response 200 (Some poke_data)
        else if url = ''https://pokeapi.co/api/v2/pokemon-species/pikachu'' then species
        else if url = ''https://pokeapi.co/api/v2/evolution-chain/10/'' then chain
        else Response 404 None),
      console_input = (\<lambda>p. Some ''2''),
      render = (\<lambda>v. [])\<rparr>"

text \<open>
  The record that the source builds from these bodies, and three hosts: one where all
  three requests succeed, one where the species request has status 404, one whose
  creature body has no \<^verbatim>\<open>stats\<close> list.
\<close>

definition pikachu_remoto :: pokemon where
  "pikachu_remoto =
     \<lparr>nome = ''Pikachu'', tipos = [''Electric''], habilidades = [''Static''],
      altura = JReal (4 / 10), peso = JReal 6,
      stats = [(JStr ''hp'', JInt 35), (JStr ''attack'', JInt 55), (JStr ''defense'', JInt 40),
               (JStr ''special-attack'', JInt 50), (JStr ''special-defense'', JInt 50),
               (JStr ''speed'', JInt 90)],
      descricao = ''It stores electricity.'',
      evolucao = [''Pichu'', ''Raichu''],
      fonte = ''Pok'' @ e_agudo @ ''API''\<rparr>"

definition pokeapi_ok :: host where
  "pokeapi_ok =
     pokeapi pikachu_api (Response 200 (Some pikachu_species))
       (Response 200 (Some pichu_chain_data))"

definition pokeapi_species_404 :: host where
  "pokeapi_species_404 =
     pokeapi pikachu_api (Response 404 None) (Response 200 (Some pichu_chain_data))"

definition pokeapi_sem_stats :: host where
  "pokeapi_sem_stats =
     pokeapi (JObj [(''name'', JStr ''pikachu''), (''height'', JInt 4), (''weight'', JInt 60)])
       (Response 200 (Some pikachu_species)) (Response 200 (Some pichu_chain_data))"








text \<open>
  Two memories: the one left by the question \<^verbatim>\<open>ataque do Pikachu\<close> asked of an empty
  memory (see \<open>memoria_pikachu_alcancavel\<close> below), and one whose last creature is not in
  any cache.
\<close>

definition memoria_pikachu :: MemoriaConversa where
  "memoria_pikachu =
     \<lparr>historico = [(''ataque do Pikachu'', emoji_espadas @ '' Pikachu tem 55 de ataque base!'')],
      ultimo_pokemon = Some ''Pikachu''\<rparr>"

definition memoria_mew :: MemoriaConversa where
  "memoria_mew = \<lparr>historico = [], ultimo_pokemon = Some ''Mew''\<rparr>"

section \<open>Properties\<close>

subsection \<open>Conversation memory\<close>

lemma length_deque_append:
  "length d \<le> n \<Longrightarrow> length (deque_append n d x) \<le> n"
  by (auto simp: deque_append_def Let_def)

lemma deque_append_drop:
  "length d \<le> n \<Longrightarrow> deque_append n d x = drop (length (d @ [x]) - n) (d @ [x])"
proof (cases "length d = n")
  case True
  then show ?thesis
    by (cases d) (auto simp: deque_append_def Let_def drop_Suc)
next
  case False
  assume "length d \<le> n"
  with False have "length d < n" by simp
  then show ?thesis by (simp add: deque_append_def Let_def)
qed

lemma drop_window:
  assumes "length ys \<le> Suc n"
  shows "drop (length (drop (length ys - n) ys @ xs) - n) (drop (length ys - n) ys @ xs)
         = drop (length (ys @ xs) - n) (ys @ xs)"
proof (cases "length ys = Suc n")
  case True
  then have k: "length ys - n = 1" by simp
  have "drop (length (ys @ xs) - n) (ys @ xs) = drop (length xs + 1) (ys @ xs)"
    using True by simp
  also have "\<dots> = drop (length xs) (drop 1 (ys @ xs))"
    by (simp only: drop_drop)
  also have "drop 1 (ys @ xs) = drop 1 ys @ xs"
    using True by simp
  finally show ?thesis using True k by simp
next
  case False
  with assms have "length ys \<le> n" by simp
  then show ?thesis by simp
qed

lemma fold_deque_append:
  "length d \<le> n \<Longrightarrow>
   fold (\<lambda>x d'. deque_append n d' x) xs d = drop (length (d @ xs) - n) (d @ xs)"
proof (induction xs arbitrary: d)
  case Nil
  then show ?case by simp
next
  case (Cons x xs)
  let ?d = "deque_append n d x"
  have len: "length ?d \<le> n"
    using Cons.prems by (rule length_deque_append)
  have d: "?d = drop (length (d @ [x]) - n) (d @ [x])"
    using Cons.prems by (rule deque_append_drop)
  have "fold (\<lambda>x d'. deque_append n d' x) (x # xs) d
          = drop (length (?d @ xs) - n) (?d @ xs)"
    using Cons.IH [OF len] by simp
  also have "\<dots> = drop (length ((d @ [x]) @ xs) - n) ((d @ [x]) @ xs)"
    unfolding d using Cons.prems by (intro drop_window) simp
  finally show ?case by simp
qed

lemma historico_adicionar_todos:
  "historico (adicionar_todos m es) =
     fold (\<lambda>x d'. deque_append 3 d' x) es (historico m)"
proof (induction es arbitrary: m)
  case Nil
  then show ?case by (simp add: adicionar_todos_def)
next
  case (Cons e es)
  obtain q a where e: "e = (q, a)" by (cases e)
  have "adicionar_todos m (e # es) = adicionar_todos (adicionar m q a) es"
    by (simp add: adicionar_todos_def e)
  then show ?case
    using Cons.IH [of "adicionar m q a"] by (simp add: adicionar_def e)
qed

lemma ultimo_pokemon_adicionar_todos:
  "ultimo_pokemon (adicionar_todos m es) = ultimo_pokemon m"
proof (induction es arbitrary: m)
  case Nil
  then show ?case by (simp add: adicionar_todos_def)
next
  case (Cons e es)
  obtain q a where e: "e = (q, a)" by (cases e)
  have "adicionar_todos m (e # es) = adicionar_todos (adicionar m q a) es"
    by (simp add: adicionar_todos_def e)
  then show ?case
    using Cons.IH [of "adicionar m q a"] by (simp add: adicionar_def)
qed

text \<open>
  C7. The memory is a first-in first-out buffer of capacity 3. Starting from a memory
  that holds at most 3 entries (every memory built by \<^const>\<open>memoria_init\<close> and
  \<^const>\<open>adicionar\<close> does), after more than 3 successive \<^const>\<open>adicionar\<close> calls the
  history has exactly 3 entries, and they are the last 3 pairs added, oldest first.
\<close>

theorem memoria_fifo:
  assumes "length (historico m) \<le> 3" and "3 < length es"
  shows "length (historico (adicionar_todos m es)) = 3
       \<and> historico (adicionar_todos m es) = drop (length es - 3) es"
proof -
  have "historico (adicionar_todos m es)
          = drop (length (historico m @ es) - 3) (historico m @ es)"
    using assms(1) by (simp add: historico_adicionar_todos fold_deque_append)
  also have "\<dots> = drop (length es - 3) es"
    using assms(2) by simp
  finally have eq: "historico (adicionar_todos m es) = drop (length es - 3) es" .
  moreover have "length (drop (length es - 3) es) = 3"
    using assms(2) by simp
  ultimately show ?thesis by simp
qed

theorem memoria_fifo_witness:
  "length (historico memoria_init) \<le> 3
   \<and> 3 < length [(''q1'', ''a1''), (''q2'', ''a2''), (''q3'', ''a3''), (''q4'', ''a4''), (''q5'', ''a5'')]
   \<and> historico (adicionar_todos memoria_init
        [(''q1'', ''a1''), (''q2'', ''a2''), (''q3'', ''a3''), (''q4'', ''a4''), (''q5'', ''a5'')])
      = [(''q3'', ''a3''), (''q4'', ''a4''), (''q5'', ''a5'')]"
  using memoria_fifo [of memoria_init
      "[(''q1'', ''a1''), (''q2'', ''a2''), (''q3'', ''a3''), (''q4'', ''a4''), (''q5'', ''a5'')]"]
  by (simp add: memoria_init_def)

subsection \<open>Weaknesses\<close>

lemma finite_tabela: "tabela_tipos t = Some ws \<Longrightarrow> finite ws"
  by (auto simp: tabela_tipos_def split: if_splits)

lemma fold_acrescentar:
  "fold acrescentar_tipo ts acc
     = acc \<union> (\<Union>t \<in> set ts. case tabela_tipos t of Some ws \<Rightarrow> ws | None \<Rightarrow> {})"
  by (induction ts arbitrary: acc) (auto simp: acrescentar_tipo_def split: option.splits)

lemma finite_fold_acrescentar: "finite acc \<Longrightarrow> finite (fold acrescentar_tipo ts acc)"
  by (induction ts arbitrary: acc)
     (auto simp: acrescentar_tipo_def finite_tabela split: option.splits)

text \<open>
  C6. \<^const>\<open>calcular_fraquezas\<close> is a total function, so it never raises. On the empty
  list it gives the empty list; two lists with the same set of type names give the same
  result; the result is sorted and has no element twice; it holds exactly the
  counter-types of the input types that the table knows, so an unknown type name adds
  nothing and can be left out.
\<close>

theorem calcular_fraquezas_props:
  "calcular_fraquezas [] = []
   \<and> (set ts = set us \<longrightarrow> calcular_fraquezas ts = calcular_fraquezas us)
   \<and> sorted (calcular_fraquezas ts) \<and> distinct (calcular_fraquezas ts)
   \<and> set (calcular_fraquezas ts) = (\<Union>t \<in> set ts. case tabela_tipos t of Some ws \<Rightarrow> ws | None \<Rightarrow> {})
   \<and> calcular_fraquezas ts = calcular_fraquezas (filter (\<lambda>t. t \<in> dom tabela_tipos) ts)"
proof -
  have fin: "finite (fold acrescentar_tipo ts {})"
    by (simp add: finite_fold_acrescentar)
  have "fold acrescentar_tipo ts {} = fold acrescentar_tipo (filter (\<lambda>t. t \<in> dom tabela_tipos) ts) {}"
    by (auto simp: fold_acrescentar split: option.splits)
  then show ?thesis
    using fin by (auto simp: calcular_fraquezas_def fold_acrescentar)
qed

theorem calcular_fraquezas_props_witness:
  "set [''Fire'', ''Flying''] = set [''Flying'', ''Fire'', ''Fire'']
   \<and> calcular_fraquezas [''Flying'', ''Fire'', ''Fire''] = [''Electric'', ''Ground'', ''Ice'', ''Rock'', ''Water'']"
proof -
  have s: "set [''Fire'', ''Flying''] = set [''Flying'', ''Fire'', ''Fire'']"
    by auto
  have ev: "calcular_fraquezas [''Fire'', ''Flying''] = [''Electric'', ''Ground'', ''Ice'', ''Rock'', ''Water'']"
    by code_simp
  have eq: "calcular_fraquezas [''Fire'', ''Flying''] = calcular_fraquezas [''Flying'', ''Fire'', ''Fire'']"
    using s calcular_fraquezas_props [of "[''Fire'', ''Flying'']" "[''Flying'', ''Fire'', ''Fire'']"]
    by blast
  have "calcular_fraquezas [''Flying'', ''Fire'', ''Fire''] = [''Electric'', ''Ground'', ''Ice'', ''Rock'', ''Water'']"
    unfolding eq [symmetric] by (rule ev)
  with s show ?thesis by (rule conjI)
qed

subsection \<open>Disambiguation\<close>

text \<open>
  C10. With two or more candidate names the confirmation leaves exactly one: the first when
  the answer is exactly \<^verbatim>\<open>1\<close>, the second for any other answer. The prompt shows the first
  two names only, whatever follows them, and a list of two or more extracted names reaches
  the confirmation as it is.
\<close>

theorem confirmar_dois:
  assumes "console_input w (pergunta_confirmacao [n1, n2]) = Some confirmacao"
  shows "confirmar w (n1 # n2 # resto) = Inr [if confirmacao = ''1'' then n1 else n2]
       \<and> pergunta_confirmacao (n1 # n2 # resto) = pergunta_confirmacao [n1, n2]
       \<and> nomes_ou_ultimo memoria (n1 # n2 # resto) = n1 # n2 # resto"
  using assms
  by (simp add: confirmar_def pergunta_confirmacao_def nomes_ou_ultimo_def split: option.splits)

theorem confirmar_dois_witness:
  "console_input rede_fora (pergunta_confirmacao [''Pikachu'', ''Raichu'']) = Some ''2''
   \<and> confirmar rede_fora [''Pikachu'', ''Raichu'', ''Mew''] = Inr [''Raichu'']"
  using confirmar_dois [of rede_fora "''Pikachu''" "''Raichu''" "''2''" "[''Mew'']"]
  by (simp add: rede_fora_def)

subsection \<open>Error replies of the orchestrator\<close>

lemma buscar_primeiro_None:
  "(\<forall>n\<in>set nomes. buscar w cache_local n = None) \<Longrightarrow> buscar_primeiro w cache_local nomes = None"
  by (induction nomes) auto

text \<open>
  C4. The two error endings of \<^const>\<open>responder\<close>. When no name is extracted and there is
  no last creature, the reply is \<^const>\<open>nao_identifiquei\<close>; when no remaining candidate has
  data in either source, the reply is \<^const>\<open>nao_encontrei\<close> of the candidates. In both the
  memory, history and last creature, is returned as it was.
\<close>

theorem responder_erros:
  "(extrair_nomes_de_pokemon (NOMES_VALIDOS cache_local) pergunta = []
      \<and> ultimo_pokemon memoria = None
    \<longrightarrow> responder w cache_local memoria pergunta = (Inr nao_identifiquei, memoria))
   \<and> (confirmar w (nomes_ou_ultimo memoria
                    (extrair_nomes_de_pokemon (NOMES_VALIDOS cache_local) pergunta)) = Inr nomes
      \<and> nomes \<noteq> []
      \<and> (\<forall>n\<in>set nomes. buscar_na_pokeapi w cache_local n = None
                        \<and> buscar_no_json cache_local n = None)
    \<longrightarrow> responder w cache_local memoria pergunta = (Inr (nao_encontrei nomes), memoria))"
proof (intro conjI impI)
  assume "extrair_nomes_de_pokemon (NOMES_VALIDOS cache_local) pergunta = []
          \<and> ultimo_pokemon memoria = None"
  then show "responder w cache_local memoria pergunta = (Inr nao_identifiquei, memoria)"
    by (simp add: responder_def nomes_ou_ultimo_def confirmar_def)
next
  assume a: "confirmar w (nomes_ou_ultimo memoria
                (extrair_nomes_de_pokemon (NOMES_VALIDOS cache_local) pergunta)) = Inr nomes
           \<and> nomes \<noteq> []
           \<and> (\<forall>n\<in>set nomes. buscar_na_pokeapi w cache_local n = None
                             \<and> buscar_no_json cache_local n = None)"
  then have "\<forall>n\<in>set nomes. buscar w cache_local n = None"
    by (simp add: buscar_def)
  then have "buscar_primeiro w cache_local nomes = None"
    by (rule buscar_primeiro_None)
  with a show "responder w cache_local memoria pergunta = (Inr (nao_encontrei nomes), memoria)"
    by (simp add: responder_def Let_def)
qed

theorem responder_erros_witness:
  "responder rede_fora [] memoria_init ''Oi, tudo bem?'' = (Inr nao_identifiquei, memoria_init)
   \<and> responder rede_fora [] memoria_mew ''e as fraquezas?'' = (Inr (nao_encontrei [''Mew'']), memoria_mew)"
proof -
  have h1: "extrair_nomes_de_pokemon (NOMES_VALIDOS []) ''Oi, tudo bem?'' = []
            \<and> ultimo_pokemon memoria_init = None"
    by code_simp
  have h2: "confirmar rede_fora (nomes_ou_ultimo memoria_mew
              (extrair_nomes_de_pokemon (NOMES_VALIDOS []) ''e as fraquezas?'')) = Inr [''Mew'']
            \<and> [''Mew''] \<noteq> []
            \<and> (\<forall>n\<in>set [''Mew'']. buscar_na_pokeapi rede_fora [] n = None
                                  \<and> buscar_no_json [] n = None)"
    by code_simp
  from h1 responder_erros [where cache_local = "[]" and pergunta = "''Oi, tudo bem?''"
      and memoria = memoria_init and w = rede_fora]
  have r1: "responder rede_fora [] memoria_init ''Oi, tudo bem?'' = (Inr nao_identifiquei, memoria_init)"
    by blast
  from h2 responder_erros [where cache_local = "[]" and pergunta = "''e as fraquezas?''"
      and memoria = memoria_mew and w = rede_fora and nomes = "[''Mew'']"]
  have r2: "responder rede_fora [] memoria_mew ''e as fraquezas?'' = (Inr (nao_encontrei [''Mew'']), memoria_mew)"
    by blast
  from r1 r2 show ?thesis by (rule conjI)
qed

subsection \<open>Comparison\<close>

text \<open>
  C3, as amended. The comparison takes the first two capitalised words of the memory text,
  equal or not, and looks each one up on its own. With fewer than two such words, or when
  one of the two has no data, the reply is the usage hint \<^const>\<open>dica_de_uso\<close>.
\<close>

theorem resposta_comparar_pares:
  "(length (findall_maiusculas (contexto memoria)) < 2
    \<longrightarrow> resposta_comparar w cache_local memoria = Inr dica_de_uso)
   \<and> (findall_maiusculas (contexto memoria) = poke1 # poke2 # resto
    \<longrightarrow> resposta_comparar w cache_local memoria =
          (case (buscar w cache_local poke1, buscar w cache_local poke2) of
             (Some d1, Some d2) \<Rightarrow> texto_comparacao w poke1 poke2 d1 d2
           | _ \<Rightarrow> Inr dica_de_uso))"
  by (simp add: resposta_comparar_def Let_def)

lemma memoria_pikachu_alcancavel:
  "snd (responder rede_fora [pikachu_cache] memoria_init ''ataque do Pikachu'') = memoria_pikachu"
  by code_simp

text \<open>
  The claim as first stated, that the pair is the first two distinct matches and that
  fewer than two distinct names give the usage hint, fails on the memory above: its text
  holds one name, twice, and the reply is a comparison of that name with itself.
\<close>

theorem resposta_comparar_counterexample:
  "length (remdups (findall_maiusculas (contexto memoria_pikachu))) < 2
   \<and> take 2 (findall_maiusculas (contexto memoria_pikachu)) = [''Pikachu'', ''Pikachu'']
   \<and> resposta_comparar rede_fora [pikachu_cache] memoria_pikachu \<noteq> Inr dica_de_uso"
  by code_simp

theorem resposta_comparar_pares_witness:
  "length (findall_maiusculas (contexto memoria_init)) < 2
   \<and> resposta_comparar rede_fora [pikachu_cache] memoria_init = Inr dica_de_uso
   \<and> findall_maiusculas (contexto memoria_pikachu) = [''Pikachu'', ''Pikachu'']
   \<and> resposta_comparar rede_fora [pikachu_cache] memoria_pikachu =
       texto_comparacao rede_fora ''Pikachu'' ''Pikachu''
         (registro_do_cache pikachu_cache) (registro_do_cache pikachu_cache)"
proof -
  have h1: "length (findall_maiusculas (contexto memoria_init)) < 2"
    by code_simp
  have h2: "findall_maiusculas (contexto memoria_pikachu) = [''Pikachu'', ''Pikachu'']"
    by code_simp
  have b: "buscar rede_fora [pikachu_cache] ''Pikachu'' = Some (registro_do_cache pikachu_cache)"
    by code_simp
  from h1 resposta_comparar_pares [where memoria = memoria_init and w = rede_fora
      and cache_local = "[pikachu_cache]"]
  have r1: "resposta_comparar rede_fora [pikachu_cache] memoria_init = Inr dica_de_uso"
    by blast
  from h2 resposta_comparar_pares [where memoria = memoria_pikachu and w = rede_fora
      and cache_local = "[pikachu_cache]" and ?poke1.0 = "''Pikachu''" and ?poke2.0 = "''Pikachu''"
      and resto = "[]"]
  have "resposta_comparar rede_fora [pikachu_cache] memoria_pikachu =
          (case (buscar rede_fora [pikachu_cache] ''Pikachu'', buscar rede_fora [pikachu_cache] ''Pikachu'') of
             (Some d1, Some d2) \<Rightarrow> texto_comparacao rede_fora ''Pikachu'' ''Pikachu'' d1 d2
           | _ \<Rightarrow> Inr dica_de_uso)"
    by blast
  then have r2: "resposta_comparar rede_fora [pikachu_cache] memoria_pikachu =
       texto_comparacao rede_fora ''Pikachu'' ''Pikachu''
         (registro_do_cache pikachu_cache) (registro_do_cache pikachu_cache)"
    by (simp add: b)
  from h1 r1 h2 r2 show ?thesis by blast
qed

subsection \<open>Remote lookup\<close>

lemma and_then_Inr_iff:
  "and_then r f = Inr y \<longleftrightarrow> (\<exists>v. r = Inr v \<and> f v = Inr y)"
  by (cases r) (auto simp: and_then_def)

lemma and_then_Inr [simp]: "and_then (Inr v) f = f v"
  by (simp add: and_then_def)

lemma and_then_Inl [simp]: "and_then (Inl e) f = Inl e"
  by (simp add: and_then_def)

lemma and_then_all_Inl:
  "(\<And>v. \<exists>e. f v = Inl e) \<Longrightarrow> \<exists>e. and_then r f = Inl e"
  by (cases r) auto

lemma species_nao_200:
  assumes "http_get w species_url = Response st body" and "st \<noteq> 200"
  shows "processar_species w nome_corrigido species_url = Inr (descricao_nao_disponivel, None)"
  using assms by (simp add: processar_species_def requests_get_def)

lemma buscar_na_pokeapi_abandona:
  assumes poke: "http_get w (url_pokemon cache_local nome0) = Response 200 (Some poke_data)"
    and sp: "http_get w (url_species cache_local nome0) = Response st body" "st \<noteq> 200"
  shows "buscar_na_pokeapi w cache_local nome0 = None"
proof -
  have "\<exists>e. buscar_na_pokeapi_try w cache_local nome0 = Inl e"
    unfolding buscar_na_pokeapi_try_def Let_def
    using poke species_nao_200 [OF sp]
    apply (simp add: requests_get_def response_json_def url_pokemon_def url_species_def)
    apply (intro and_then_all_Inl)
    apply simp
    done
  then show ?thesis by (auto simp: buscar_na_pokeapi_def)
qed


lemma and_then_InrE:
  assumes "and_then r f = Inr y"
  obtains v where "r = Inr v" and "f v = Inr y"
  using assms by (auto simp: and_then_Inr_iff)

lemma requests_get_InrD:
  "requests_get w (JStr u) = Inr pr \<Longrightarrow> http_get w u = Response (fst pr) (snd pr)"
  by (auto simp: requests_get_def split: http_result.splits)

lemma response_json_InrD:
  "response_json pr = Inr v \<Longrightarrow> snd pr = Some v"
  by (auto simp: response_json_def split: option.splits)

lemma buscar_na_pokeapi_SomeD:
  assumes "buscar_na_pokeapi w cache_local nome0 = Some r"
  shows "\<exists>poke_data.
           http_get w (url_pokemon cache_local nome0) = Response 200 (Some poke_data)
         \<and> processar_stats poke_data = Inr (stats r)
         \<and> processar_species w
              (corrigir_nome_pokemon (NOMES_VALIDOS cache_local) (limpar_nome nome0))
              (url_species cache_local nome0) = Inr (descricao r, Some (evolucao r))
         \<and> nome r = capitalize (corrigir_nome_pokemon (NOMES_VALIDOS cache_local) (limpar_nome nome0))
         \<and> fonte r = ''Pok'' @ e_agudo @ ''API''"
proof -
  from assms have t: "buscar_na_pokeapi_try w cache_local nome0 = Inr (Some r)"
    by (auto simp: buscar_na_pokeapi_def split: sum.splits)
  show ?thesis
    using t unfolding buscar_na_pokeapi_try_def Let_def
    apply (erule_tac and_then_InrE)
    apply (simp split: if_splits)
    apply (elim and_then_InrE)
    apply (clarsimp split: option.splits)
    apply (elim and_then_InrE)
    apply (clarsimp split: option.splits)
    apply (drule requests_get_InrD)
    apply (drule response_json_InrD)
    apply (auto simp: url_pokemon_def url_species_def)
    done
qed

lemma pokeapi_ok_pikachu:
  "buscar_na_pokeapi pokeapi_ok [pikachu_cache] ''Pikachu'' = Some pikachu_remoto"
  by code_simp

text \<open>
  C1. The claim is that a failed species request leaves the sentinels in the record. In the
  source \<^verbatim>\<open>evolucao\<close> is assigned only inside the branch for status 200 of the species
  request, so with any other status the \<^verbatim>\<open>return\<close> reads a variable that has no value,
  the blanket \<^verbatim>\<open>except\<close> catches the error, and the whole remote lookup gives
  \<^verbatim>\<open>None\<close>: \<open>buscar_na_pokeapi_abandona\<close> above, for every host and name. Here it is
  evaluated for Pikachu, with the creature request answered as in \<open>pokeapi_ok_pikachu\<close>
  and the species request answered with status 404.
\<close>

theorem species_404_abandona:
  "http_get pokeapi_species_404 (url_pokemon [pikachu_cache] ''Pikachu'')
     = Response 200 (Some pikachu_api)
   \<and> http_get pokeapi_species_404 (url_species [pikachu_cache] ''Pikachu'') = Response 404 None
   \<and> buscar_na_pokeapi pokeapi_species_404 [pikachu_cache] ''Pikachu'' = None"
  by code_simp

subsection \<open>Case mapping\<close>

lemma lower_upper_char: "lower_char (upper_char c) = lower_char c"
  by (simp add: lower_char_def upper_char_def ascii_uppercase_def ascii_lowercase_def)

lemma lower_lower_char: "lower_char (lower_char c) = lower_char c"
  by (simp add: lower_char_def ascii_uppercase_def ascii_lowercase_def)

lemma lower_capitalize: "lower (capitalize s) = lower s"
  by (cases s) (simp_all add: lower_def lower_upper_char lower_lower_char)

lemma lower_lower: "lower (lower s) = lower s"
  by (simp add: lower_def lower_lower_char)

subsection \<open>Statistics\<close>

lemma stat_entry_InrD:
  "stat_entry stat acc = Inr acc' \<Longrightarrow>
   \<exists>k v. stat_key stat = Inr k \<and> acc' = AList.update k v acc"
  unfolding stat_entry_def stat_key_def
  by (elim and_then_InrE) auto

lemma fold_stat_entry_keys:
  "fold_result stat_entry entries acc = Inr st \<Longrightarrow>
   fst ` set st = fst ` set acc \<union> {k. \<exists>e\<in>set entries. stat_key e = Inr k}"
proof (induction entries arbitrary: acc)
  case Nil
  then show ?case by simp
next
  case (Cons e entries)
  from Cons.prems obtain acc' where e: "stat_entry e acc = Inr acc'"
    and rest: "fold_result stat_entry entries acc' = Inr st"
    by (auto elim: and_then_InrE)
  from stat_entry_InrD [OF e] obtain k v where k: "stat_key e = Inr k"
    and acc': "acc' = AList.update k v acc" by blast
  have "fst ` set acc' = insert k (fst ` set acc)"
    by (simp add: acc' dom_update)
  with Cons.IH [OF rest] k show ?case by auto
qed

lemma processar_stats_keys:
  assumes "processar_stats poke_data = Inr st"
  shows "\<exists>v entries. py_get poke_data ''stats'' (JArr []) = Inr v \<and> py_iter v = Inr entries
           \<and> fst ` set st = {k. \<exists>e\<in>set entries. stat_key e = Inr k}"
proof -
  from assms obtain v entries where v: "py_get poke_data ''stats'' (JArr []) = Inr v"
    and e: "py_iter v = Inr entries" and f: "fold_result stat_entry entries [] = Inr st"
    unfolding processar_stats_def by (elim and_then_InrE)
  from fold_stat_entry_keys [OF f]
  have "fst ` set st = {k. \<exists>e\<in>set entries. stat_key e = Inr k}" by simp
  with v e show ?thesis by blast
qed

lemma buscar_no_json_SomeD:
  "buscar_no_json cache_local nome0 = Some r \<Longrightarrow>
   \<exists>poke\<in>set cache_local.
     r = registro_do_cache poke
     \<and> lower (c_nome poke) = corrigir_nome_pokemon (NOMES_VALIDOS cache_local) (limpar_nome nome0)"
  by (auto simp: buscar_no_json_def Let_def find_Some_iff)

text \<open>
  C2, as amended. A record from the local cache has the six canonical keys, in the order
  hp, attack, defense, special-attack, special-defense, speed, whatever the cache entry
  holds (an absent field gives the value \<^verbatim>\<open>None\<close>). A record from the remote service has
  the keys named by the entries of the payload's \<^verbatim>\<open>stats\<close> list and no others.
\<close>

theorem stats_chaves:
  "(buscar_no_json cache_local nome0 = Some r
    \<longrightarrow> map fst (stats r) =
          [JStr ''hp'', JStr ''attack'', JStr ''defense'', JStr ''special-attack'',
           JStr ''special-defense'', JStr ''speed''])
   \<and> (buscar_na_pokeapi w cache_local nome0 = Some r
      \<and> http_get w (url_pokemon cache_local nome0) = Response 200 (Some poke_data)
    \<longrightarrow> set (map fst (stats r)) = set (chaves_dos_stats poke_data))"
proof (intro conjI impI)
  assume "buscar_no_json cache_local nome0 = Some r"
  then show "map fst (stats r) =
          [JStr ''hp'', JStr ''attack'', JStr ''defense'', JStr ''special-attack'',
           JStr ''special-defense'', JStr ''speed'']"
    by (auto dest!: buscar_no_json_SomeD simp: registro_do_cache_def)
next
  assume a: "buscar_na_pokeapi w cache_local nome0 = Some r
      \<and> http_get w (url_pokemon cache_local nome0) = Response 200 (Some poke_data)"
  from buscar_na_pokeapi_SomeD [of w cache_local nome0 r] a
  have st: "processar_stats poke_data = Inr (stats r)" by auto
  from processar_stats_keys [OF st] obtain v entries where
    v: "py_get poke_data ''stats'' (JArr []) = Inr v" and e: "py_iter v = Inr entries"
    and k: "fst ` set (stats r) = {k. \<exists>e\<in>set entries. stat_key e = Inr k}"
    by blast
  have "set (chaves_dos_stats poke_data) = {k. \<exists>e\<in>set entries. stat_key e = Inr k}"
    by (auto simp: chaves_dos_stats_def v e split: sum.splits)
  with k show "set (map fst (stats r)) = set (chaves_dos_stats poke_data)" by simp
qed

text \<open>
  The claim as first stated fails for the remote source: a creature body without a
  \<^verbatim>\<open>stats\<close> list gives a record whose mapping has no key at all, and the reply for the
  attack intent then raises \<^verbatim>\<open>KeyError\<close>.
\<close>

theorem stats_counterexample:
  "map_option stats (buscar_na_pokeapi pokeapi_sem_stats [pikachu_cache] ''Pikachu'') = Some []
   \<and> map_option (gerar_resposta pokeapi_sem_stats [pikachu_cache] memoria_init ''ataque'')
        (buscar_na_pokeapi pokeapi_sem_stats [pikachu_cache] ''Pikachu'') = Some (Inl KeyError)"
  by code_simp

theorem stats_chaves_witness:
  "buscar_no_json [pikachu_cache] ''Pikachu'' = Some (registro_do_cache pikachu_cache)
   \<and> map fst (stats (registro_do_cache pikachu_cache)) =
        [JStr ''hp'', JStr ''attack'', JStr ''defense'', JStr ''special-attack'',
         JStr ''special-defense'', JStr ''speed'']
   \<and> buscar_na_pokeapi pokeapi_ok [pikachu_cache] ''Pikachu'' = Some pikachu_remoto
   \<and> http_get pokeapi_ok (url_pokemon [pikachu_cache] ''Pikachu'') = Response 200 (Some pikachu_api)
   \<and> set (map fst (stats pikachu_remoto)) =
        set [JStr ''hp'', JStr ''attack'', JStr ''defense'', JStr ''special-attack'',
             JStr ''special-defense'', JStr ''speed'']"
proof -
  have h1: "buscar_no_json [pikachu_cache] ''Pikachu'' = Some (registro_do_cache pikachu_cache)"
    by code_simp
  have h2: "buscar_na_pokeapi pokeapi_ok [pikachu_cache] ''Pikachu'' = Some pikachu_remoto"
    by code_simp
  have h3: "http_get pokeapi_ok (url_pokemon [pikachu_cache] ''Pikachu'')
              = Response 200 (Some pikachu_api)"
    by code_simp
  have k: "chaves_dos_stats pikachu_api =
        [JStr ''hp'', JStr ''attack'', JStr ''defense'', JStr ''special-attack'',
         JStr ''special-defense'', JStr ''speed'']"
    by code_simp
  from h1 stats_chaves [where cache_local = "[pikachu_cache]" and ?nome0.0 = "''Pikachu''"
      and r = "registro_do_cache pikachu_cache"]
  have r1: "map fst (stats (registro_do_cache pikachu_cache)) =
        [JStr ''hp'', JStr ''attack'', JStr ''defense'', JStr ''special-attack'',
         JStr ''special-defense'', JStr ''speed'']"
    by blast
  from h2 h3 stats_chaves [where cache_local = "[pikachu_cache]" and ?nome0.0 = "''Pikachu''"
      and r = pikachu_remoto and w = pokeapi_ok and poke_data = pikachu_api]
  have "set (map fst (stats pikachu_remoto)) = set (chaves_dos_stats pikachu_api)"
    by blast
  then have r2: "set (map fst (stats pikachu_remoto)) =
        set [JStr ''hp'', JStr ''attack'', JStr ''defense'', JStr ''special-attack'',
             JStr ''special-defense'', JStr ''speed'']"
    unfolding k .
  from h1 r1 h2 h3 r2 show ?thesis by blast
qed

subsection \<open>Evolution chain\<close>

lemma nomes_evolucao_Cadeia:
  "nomes_evolucao nc (Cadeia n filhos) =
     (if lower n \<noteq> nc then [capitalize n] else []) @ concat (map (nomes_evolucao nc) filhos)"
  unfolding nomes_evolucao_def by (simp add: filter_concat map_concat comp_def)

lemma fold_extrair:
  assumes "list_all2 representa evos filhos"
    and "\<And>filho chain acc. filho \<in> set filhos \<Longrightarrow> representa chain filho \<Longrightarrow>
           extrair_evolucoes nc chain acc = Inr (acc @ nomes_evolucao nc filho)"
  shows "fold_result (extrair_evolucoes nc) evos acc
           = Inr (acc @ concat (map (nomes_evolucao nc) filhos))"
  using assms
proof (induction evos filhos arbitrary: acc rule: list_all2_induct)
  case Nil
  then show ?case by simp
next
  case (Cons x xs y ys)
  have "extrair_evolucoes nc x acc = Inr (acc @ nomes_evolucao nc y)"
    using Cons.hyps(1) Cons.prems [of y x acc] by simp
  moreover have "fold_result (extrair_evolucoes nc) xs (acc @ nomes_evolucao nc y)
                   = Inr ((acc @ nomes_evolucao nc y) @ concat (map (nomes_evolucao nc) ys))"
    using Cons.prems by (intro Cons.IH) simp_all
  ultimately show ?case by simp
qed

lemma extrair_representa:
  "representa chain arvore \<Longrightarrow>
   extrair_evolucoes nc chain acc = Inr (acc @ nomes_evolucao nc arvore)"
proof (induction arvore arbitrary: chain acc)
  case (Cadeia n filhos)
  from Cadeia.prems obtain species where
    sp: "py_subscript chain ''species'' = Inr species"
    and nm: "py_subscript species ''name'' = Inr (JStr n)"
    by (auto elim: and_then_InrE)
  from Cadeia.prems obtain evolves_to evos where
    ev: "py_get chain ''evolves_to'' (JArr []) = Inr evolves_to"
    and it: "py_iter evolves_to = Inr evos"
    and all: "list_all2 representa evos filhos"
    by (auto split: sum.splits elim: and_then_InrE)
  have f: "fold_result (extrair_evolucoes nc) evos acc'
             = Inr (acc' @ concat (map (nomes_evolucao nc) filhos))" for acc'
    using all Cadeia.IH by (rule fold_extrair)
  show ?case
    by (subst extrair_evolucoes.simps)
       (simp add: sp nm ev it f str_capitalize_def lower_capitalize nomes_evolucao_Cadeia)
qed

lemma processar_evolucao_representa:
  assumes ec: "py_subscript species_data ''evolution_chain'' = Inr evolution_chain"
      "py_subscript evolution_chain ''url'' = Inr (JStr chain_url)"
    and ch: "http_get w chain_url = Response status (Some chain_data)"
      "py_subscript chain_data ''chain'' = Inr chain"
    and rep: "representa chain arvore"
  shows "processar_evolucao w nc species_data =
           Inr (if nomes_evolucao nc arvore = [] then [nao_evolui] else nomes_evolucao nc arvore)"
proof -
  have k: "py_has_key species_data ''evolution_chain''"
    using ec(1) by (auto simp: py_has_key_def py_subscript_def split: json.splits option.splits)
  have t: "py_truthy chain_data"
    using ch(2) by (auto simp: py_truthy_def py_subscript_def split: json.splits option.splits)
  show ?thesis
    using k t ec ch extrair_representa [OF rep, of nc "[]"]
    by (simp add: processar_evolucao_def requests_get_def response_json_def)
qed

text \<open>
  C8. For a chain that has the shape of a tree, \<^const>\<open>extrair_evolucoes\<close> started on the
  root with an empty list gives \<^const>\<open>nomes_evolucao\<close> of the tree: the species names in
  pre-order, without the nodes whose lower-cased name is the corrected name, each name
  capitalised. The record of a successful lookup has this list as its evolutions, or the
  one-element list of \<^const>\<open>nao_evolui\<close> when the list is empty.
\<close>

theorem evolucao_pre_ordem:
  assumes r: "buscar_na_pokeapi w cache_local nome0 = Some r"
    and sp: "http_get w (url_species cache_local nome0) = Response 200 (Some species_data)"
    and ec: "py_subscript species_data ''evolution_chain'' = Inr evolution_chain"
      "py_subscript evolution_chain ''url'' = Inr (JStr chain_url)"
    and ch: "http_get w chain_url = Response status (Some chain_data)"
      "py_subscript chain_data ''chain'' = Inr chain"
    and rep: "representa chain arvore"
    and nc: "nc = corrigir_nome_pokemon (NOMES_VALIDOS cache_local) (limpar_nome nome0)"
  shows "extrair_evolucoes nc chain [] = Inr (nomes_evolucao nc arvore)
       \<and> evolucao r = (if nomes_evolucao nc arvore = [] then [nao_evolui]
                        else nomes_evolucao nc arvore)"
proof -
  from buscar_na_pokeapi_SomeD [OF r]
  have "processar_species w nc (url_species cache_local nome0)
          = Inr (descricao r, Some (evolucao r))"
    unfolding nc by blast
  then have "processar_evolucao w nc species_data = Inr (evolucao r)"
    unfolding processar_species_def
    by (auto simp: requests_get_def response_json_def sp elim!: and_then_InrE)
  with processar_evolucao_representa [OF ec ch rep, of nc]
  have "evolucao r = (if nomes_evolucao nc arvore = [] then [nao_evolui]
                      else nomes_evolucao nc arvore)"
    by simp
  with extrair_representa [OF rep, of nc "[]"] show ?thesis by simp
qed

theorem evolucao_pre_ordem_witness:
  "buscar_na_pokeapi pokeapi_ok [pikachu_cache] ''Pikachu'' = Some pikachu_remoto
   \<and> representa pichu_chain pichu_arvore
   \<and> pre_ordem pichu_arvore = [''pichu'', ''pikachu'', ''raichu'']
   \<and> extrair_evolucoes ''pikachu'' pichu_chain [] = Inr [''Pichu'', ''Raichu'']
   \<and> evolucao pikachu_remoto = [''Pichu'', ''Raichu'']"
proof -
  have r: "buscar_na_pokeapi pokeapi_ok [pikachu_cache] ''Pikachu'' = Some pikachu_remoto"
    by code_simp
  have sp: "http_get pokeapi_ok (url_species [pikachu_cache] ''Pikachu'')
              = Response 200 (Some pikachu_species)"
    by code_simp
  have ec: "py_subscript pikachu_species ''evolution_chain''
              = Inr (JObj [(''url'', JStr ''https://pokeapi.co/api/v2/evolution-chain/10/'')])"
    by code_simp
  have url: "py_subscript (JObj [(''url'', JStr ''https://pokeapi.co/api/v2/evolution-chain/10/'')])
               ''url'' = Inr (JStr ''https://pokeapi.co/api/v2/evolution-chain/10/'')"
    by code_simp
  have ch: "http_get pokeapi_ok ''https://pokeapi.co/api/v2/evolution-chain/10/''
              = Response 200 (Some pichu_chain_data)"
    by code_simp
  have c: "py_subscript pichu_chain_data ''chain'' = Inr pichu_chain"
    by code_simp
  have rep: "representa pichu_chain pichu_arvore"
    by code_simp
  have nc: "''pikachu'' = corrigir_nome_pokemon (NOMES_VALIDOS [pikachu_cache]) (limpar_nome ''Pikachu'')"
    by code_simp
  have po: "pre_ordem pichu_arvore = [''pichu'', ''pikachu'', ''raichu'']"
    by code_simp
  have ns: "nomes_evolucao ''pikachu'' pichu_arvore = [''Pichu'', ''Raichu'']"
    by code_simp
  from evolucao_pre_ordem [OF r sp ec url ch c rep nc]
  have "extrair_evolucoes ''pikachu'' pichu_chain [] = Inr [''Pichu'', ''Raichu'']
        \<and> evolucao pikachu_remoto = [''Pichu'', ''Raichu'']"
    unfolding ns by simp
  with r rep po show ?thesis by blast
qed

subsection \<open>Closest match\<close>

lemma tamanho_simps [simp]:
  "tamanho [] = 0"
  "tamanho ((i, j, k) # blocks) = k + tamanho blocks"
  "tamanho (xs @ ys) = tamanho xs + tamanho ys"
  by (simp_all add: tamanho_def)

lemma tamanho_insort: "tamanho (insort x xs) = tamanho [x] + tamanho xs"
  by (induction xs) (auto simp: tamanho_def)

lemma tamanho_sort: "tamanho (sort xs) = tamanho xs"
proof (induction xs)
  case Nil
  then show ?case by simp
next
  case (Cons x xs)
  then show ?case
    by (cases x) (simp add: sort_key_def tamanho_insort flip: sort_key_def)
qed

lemma collapse_step_eq:
  "collapse_step (i2, j2, k2) ((i1, j1, k1), na) =
     (if i1 + k1 = i2 \<and> j1 + k1 = j2 then ((i1, j1, k1 + k2), na)
      else ((i2, j2, k2), (if k1 \<noteq> 0 then na @ [(i1, j1, k1)] else na)))"
  by (simp add: collapse_step_def)

lemma tamanho_collapse:
  "fold collapse_step bs ((i1, j1, k1), na) = ((i2, j2, k2), na') \<Longrightarrow>
   tamanho na' + k2 = tamanho na + k1 + tamanho bs"
proof (induction bs arbitrary: i1 j1 k1 na)
  case Nil
  then show ?case by simp
next
  case (Cons blk bs)
  obtain i j k where blk: "blk = (i, j, k)" by (cases blk)
  show ?case
  proof (cases "i1 + k1 = i \<and> j1 + k1 = j")
    case True
    then have "fold collapse_step bs ((i1, j1, k1 + k), na) = ((i2, j2, k2), na')"
      using Cons.prems by (simp add: blk collapse_step_eq)
    from Cons.IH [OF this] show ?thesis by (simp add: blk)
  next
    case False
    then have "collapse_step blk ((i1, j1, k1), na)
                 = ((i, j, k), (if k1 \<noteq> 0 then na @ [(i1, j1, k1)] else na))"
      by (auto simp: blk collapse_step_eq)
    then have "fold collapse_step bs
                 ((i, j, k), (if k1 \<noteq> 0 then na @ [(i1, j1, k1)] else na))
               = ((i2, j2, k2), na')"
      using Cons.prems by simp
    from Cons.IH [OF this] show ?thesis by (auto simp: blk split: if_splits)
  qed
qed

lemma tamanho_get_matching_blocks:
  "tamanho (get_matching_blocks a b)
     = tamanho (matching_loop a b [(0, length a, 0, length b)] [])"
proof -
  let ?bs = "sort (matching_loop a b [(0, length a, 0, length b)] [])"
  obtain x na' where "fold collapse_step ?bs ((0, 0, 0), []) = (x, na')"
    by (cases "fold collapse_step ?bs ((0, 0, 0), [])")
  moreover obtain i2 j2 k2 where "x = (i2, j2, k2)" by (cases x)
  ultimately have f: "fold collapse_step ?bs ((0, 0, 0), []) = ((i2, j2, k2), na')"
    by simp
  from tamanho_collapse [OF f] have "tamanho na' + k2 = tamanho ?bs" by simp
  then show ?thesis
    by (simp add: get_matching_blocks_def Let_def f tamanho_sort)
qed

lemma lados_simps [simp]:
  "lados [] = 0"
  "lados ((alo, ahi, blo, bhi) # queue) = (ahi - alo) + (bhi - blo) + lados queue"
  "lados (xs @ ys) = lados xs + lados ys"
  by (simp_all add: lados_def)


lemma perfeito_junta:
  assumes ok: "alo \<le> i" "i + k \<le> ahi" "blo \<le> j" "j + k \<le> bhi"
    and mid: "\<forall>t<k. a ! (i + t) = b ! (j + t)"
    and pl: "perfeito a b (alo, i, blo, j)"
    and pr: "perfeito a b (i + k, ahi, j + k, bhi)"
  shows "perfeito a b (alo, ahi, blo, bhi)"
proof -
  from pl have l1: "i - alo = j - blo" and l2: "\<And>t. t < i - alo \<Longrightarrow> a ! (alo + t) = b ! (blo + t)"
    by (auto simp: perfeito_def)
  from pr have r1: "ahi - (i + k) = bhi - (j + k)"
    and r2: "\<And>t. t < ahi - (i + k) \<Longrightarrow> a ! (i + k + t) = b ! (j + k + t)"
    by (auto simp: perfeito_def)
  have len: "ahi - alo = bhi - blo" using ok l1 r1 by linarith
  have "a ! (alo + t) = b ! (blo + t)" if t: "t < ahi - alo" for t
  proof -
    consider "t < i - alo" | "i - alo \<le> t" "t < i - alo + k" | "i - alo + k \<le> t"
      by linarith
    then show ?thesis
    proof cases
      case 1
      then show ?thesis by (rule l2)
    next
      case 2
      define t' where "t' = t - (i - alo)"
      have "t' < k" using 2 by (simp add: t'_def)
      with mid have "a ! (i + t') = b ! (j + t')" by simp
      moreover have "alo + t = i + t'" using 2 ok by (simp add: t'_def)
      moreover have "blo + t = j + t'" using 2 ok l1 by (simp add: t'_def)
      ultimately show ?thesis by simp
    next
      case 3
      define t' where "t' = t - (i - alo + k)"
      have "t' < ahi - (i + k)" using 3 t ok by (simp add: t'_def)
      then have "a ! (i + k + t') = b ! (j + k + t')" by (rule r2)
      moreover have "alo + t = i + k + t'" using 3 ok by (simp add: t'_def)
      moreover have "blo + t = j + k + t'" using 3 ok l1 by (simp add: t'_def)
      ultimately show ?thesis by simp
    qed
  qed
  with len show ?thesis by (simp add: perfeito_def)
qed

lemma perfeito_vazio: "ahi \<le> alo \<Longrightarrow> bhi \<le> blo \<Longrightarrow> perfeito a b (alo, ahi, blo, bhi)"
  by (simp add: perfeito_def)

lemma matching_loop_bound:
  "2 * tamanho (matching_loop a b queue blocks) \<le> 2 * tamanho blocks + lados queue
   \<and> (2 * tamanho (matching_loop a b queue blocks) = 2 * tamanho blocks + lados queue
      \<longrightarrow> (\<forall>w\<in>set queue. perfeito a b w))"
proof (induction a b queue blocks rule: matching_loop.induct)
  case (1 a b blocks)
  then show ?case by (simp add: matching_loop.simps)
next
  case (2 a b alo ahi blo bhi queue blocks)
  obtain i j k where m: "find_longest_match a b alo ahi blo bhi = (i, j, k)"
    by (cases "find_longest_match a b alo ahi blo bhi")
  show ?case
  proof (cases "k = 0")
    case True
    have eq: "matching_loop a b ((alo, ahi, blo, bhi) # queue) blocks
                = matching_loop a b queue blocks"
      by (subst matching_loop.simps) (simp add: m True)
    have IH: "2 * tamanho (matching_loop a b queue blocks) \<le> 2 * tamanho blocks + lados queue
       \<and> (2 * tamanho (matching_loop a b queue blocks) = 2 * tamanho blocks + lados queue
          \<longrightarrow> (\<forall>w\<in>set queue. perfeito a b w))"
      using "2.IH"(2) [of i "(j, k)" j k] m True by simp
    show ?thesis
      unfolding eq using IH by (auto intro: perfeito_vazio)
  next
    case False
    define right where
      "right = (if i + k < ahi \<and> j + k < bhi then [(i + k, ahi, j + k, bhi)] else [])"
    define left where
      "left = (if alo < i \<and> blo < j then [(alo, i, blo, j)] else [])"
    let ?R = "matching_loop a b (right @ left @ queue) (blocks @ [(i, j, k)])"
    have eq: "matching_loop a b ((alo, ahi, blo, bhi) # queue) blocks = ?R"
      by (subst matching_loop.simps) (simp add: m False right_def left_def)
    have IH: "2 * tamanho ?R \<le> 2 * tamanho (blocks @ [(i, j, k)]) + lados (right @ left @ queue)
       \<and> (2 * tamanho ?R = 2 * tamanho (blocks @ [(i, j, k)]) + lados (right @ left @ queue)
          \<longrightarrow> (\<forall>w\<in>set (right @ left @ queue). perfeito a b w))"
      using "2.IH"(1) [of i "(j, k)" j k] m False by (simp add: right_def left_def)
    have "block_ok a b alo ahi blo bhi (i, j, k)"
      using find_longest_match_ok [of a b alo ahi blo bhi] m by simp
    with False have ok: "alo \<le> i" "i + k \<le> ahi" "blo \<le> j" "j + k \<le> bhi"
      and mid: "\<forall>t<k. a ! (i + t) = b ! (j + t)"
      by (auto simp: block_ok_def)
    have lr: "lados right + lados left + 2 * k \<le> (ahi - alo) + (bhi - blo)"
      using ok by (auto simp: right_def left_def)
    have bound: "2 * tamanho ?R \<le> 2 * tamanho blocks + lados ((alo, ahi, blo, bhi) # queue)"
      using IH lr by simp
    have "\<forall>w\<in>set ((alo, ahi, blo, bhi) # queue). perfeito a b w"
      if e: "2 * tamanho ?R = 2 * tamanho blocks + lados ((alo, ahi, blo, bhi) # queue)"
    proof -
      from e IH lr have e1: "lados right + lados left + 2 * k = (ahi - alo) + (bhi - blo)"
        and e2: "2 * tamanho ?R = 2 * tamanho (blocks @ [(i, j, k)]) + lados (right @ left @ queue)"
        by simp_all
      from e2 IH have all: "\<forall>w\<in>set (right @ left @ queue). perfeito a b w" by blast
      have pl: "perfeito a b (alo, i, blo, j)"
      proof (cases "alo < i \<and> blo < j")
        case True
        then show ?thesis using all by (simp add: left_def)
      next
        case False
        then have "left = []" by (simp add: left_def)
        with e1 ok have "i \<le> alo \<and> j \<le> blo"
          by (auto simp: right_def split: if_splits)
        then show ?thesis by (auto intro: perfeito_vazio)
      qed
      have pr: "perfeito a b (i + k, ahi, j + k, bhi)"
      proof (cases "i + k < ahi \<and> j + k < bhi")
        case True
        then show ?thesis using all by (simp add: right_def)
      next
        case False
        then have "right = []" by (simp add: right_def)
        with e1 ok have "ahi \<le> i + k \<and> bhi \<le> j + k"
          by (auto simp: left_def split: if_splits)
        then show ?thesis by (auto intro: perfeito_vazio)
      qed
      from perfeito_junta [OF ok mid pl pr] all show ?thesis by simp
    qed
    with bound show ?thesis unfolding eq by blast
  qed
qed

lemma ratio_bound:
  "2 * tamanho (get_matching_blocks a b) \<le> length a + length b
   \<and> (2 * tamanho (get_matching_blocks a b) = length a + length b \<longrightarrow> a = b)"
proof -
  let ?M = "tamanho (matching_loop a b [(0, length a, 0, length b)] [])"
  from matching_loop_bound [of a b "[(0, length a, 0, length b)]" "[]"]
  have b: "2 * ?M \<le> length a + length b"
    and e: "2 * ?M = length a + length b \<Longrightarrow> perfeito a b (0, length a, 0, length b)"
    by simp_all
  have "a = b" if "2 * ?M = length a + length b"
  proof -
    from e [OF that] have "length a = length b" and "\<forall>t<length a. a ! t = b ! t"
      by (simp_all add: perfeito_def)
    then show ?thesis by (simp add: nth_equalityI)
  qed
  with b show ?thesis by (simp add: tamanho_get_matching_blocks)
qed

lemma ratio_le_1: "ratio a b \<le> 1"
proof -
  from ratio_bound [of a b]
  have "2 * tamanho (get_matching_blocks a b) \<le> length a + length b" by simp
  then have "2 * (of_nat (tamanho (get_matching_blocks a b)) :: rat) \<le> of_nat (length a + length b)"
    by (metis of_nat_le_iff of_nat_mult of_nat_numeral)
  then show ?thesis
    by (auto simp: ratio_def calculate_ratio_def tamanho_def divide_le_eq)
qed

lemma ratio_eq_1D: "1 \<le> ratio a b \<Longrightarrow> a = b"
proof -
  assume r: "1 \<le> ratio a b"
  show "a = b"
  proof (cases "length a + length b = 0")
    case True
    then show ?thesis by simp
  next
    case False
    with r have "(of_nat (length a + length b) :: rat)
                   \<le> 2 * of_nat (tamanho (get_matching_blocks a b))"
      by (auto simp: ratio_def calculate_ratio_def tamanho_def le_divide_eq split: if_splits)
    then have "length a + length b \<le> 2 * tamanho (get_matching_blocks a b)"
      by (metis of_nat_le_iff of_nat_mult of_nat_numeral)
    with ratio_bound [of a b] show ?thesis by simp
  qed
qed

lemma corrida_eq:
  "corrida s i = (if popular s (s ! i) then 0 else Suc (corrida_ant s i))"
  by (cases i) (simp_all add: corrida_ant_def)

lemma fold_flm_cell_diag:
  assumes f: "\<forall>j. f j \<le> corrida s j \<and> f j \<le> corrida_ant s i"
      "0 < i \<longrightarrow> f (i - 1) = corrida s (i - 1)"
    and np: "\<not> popular s (s ! i)"
    and js: "sorted js" "\<forall>j\<in>set js. s ! j = s ! i"
    and best: "bi = bj" "\<forall>j<i. corrida s j \<le> bk" "i \<in> set js \<or> corrida s i \<le> bk"
    and new: "\<forall>j. new j \<le> corrida s j \<and> new j \<le> corrida s i"
      "i \<in> set js \<or> new i = corrida s i"
    and res: "fold (flm_cell f i) js ((bi, bj, bk), new) = ((bi', bj', bk'), new')"
  shows "bi' = bj' \<and> (\<forall>j<Suc i. corrida s j \<le> bk')
       \<and> (\<forall>j. new' j \<le> corrida s j \<and> new' j \<le> corrida s i)
       \<and> new' i = corrida s i"
  using js best new res
proof (induction js arbitrary: bi bj bk new)
  case Nil
  then show ?case by (auto simp: less_Suc_eq)
next
  case (Cons j js)
  define k where "k = (if j = 0 then 0 else f (j - 1)) + 1"
  have sj: "s ! j = s ! i" using Cons.prems(2) by simp
  have cj: "corrida s j = Suc (corrida_ant s j)"
    using np sj by (simp add: corrida_eq [of s j])
  have ci: "corrida s i = Suc (corrida_ant s i)"
    using np by (simp add: corrida_eq [of s i])
  have k_j: "k \<le> corrida s j"
    using f(1) by (auto simp: k_def cj corrida_ant_def)
  have k_i: "k \<le> corrida s i"
    using f(1) by (auto simp: k_def ci)
  have k_d: "j = i \<Longrightarrow> k = corrida s i"
    using f(2) by (auto simp: k_def ci corrida_ant_def)
  have upd: "bk < k \<Longrightarrow> j = i"
  proof (rule ccontr)
    assume lt: "bk < k" and ne: "j \<noteq> i"
    show False
    proof (cases "j < i")
      case True
      with Cons.prems(4) have "corrida s j \<le> bk" by simp
      with k_j lt show False by simp
    next
      case False
      with ne have gt: "i < j" by simp
      have "i \<notin> set (j # js)" using Cons.prems(1) gt by auto
      with Cons.prems(5) have "corrida s i \<le> bk" by simp
      with k_i lt show False by simp
    qed
  qed
  define bi2 bj2 bk2 where "bi2 = (if bk < k then i + 1 - k else bi)"
    and "bj2 = (if bk < k then j + 1 - k else bj)"
    and "bk2 = (if bk < k then k else bk)"
  have step: "flm_cell f i j ((bi, bj, bk), new) = ((bi2, bj2, bk2), new(j := k))"
    by (simp add: flm_cell_def k_def bi2_def bj2_def bk2_def Let_def)
  have res: "fold (flm_cell f i) js ((bi2, bj2, bk2), new(j := k)) = ((bi', bj', bk'), new')"
    using Cons.prems(8) step by simp
  show ?case
  proof (rule Cons.IH [OF _ _ _ _ _ _ _ res])
    show "sorted js" using Cons.prems(1) by simp
    show "\<forall>j\<in>set js. s ! j = s ! i" using Cons.prems(2) by simp
    show "bi2 = bj2" using Cons.prems(3) upd by (auto simp: bi2_def bj2_def)
    show "\<forall>j<i. corrida s j \<le> bk2" using Cons.prems(4) by (auto simp: bk2_def)
    show "i \<in> set js \<or> corrida s i \<le> bk2"
      using Cons.prems(5) k_d by (auto simp: bk2_def)
    show "\<forall>j'. (new(j := k)) j' \<le> corrida s j' \<and> (new(j := k)) j' \<le> corrida s i"
      using Cons.prems(6) k_j k_i by simp
    show "i \<in> set js \<or> (new(j := k)) i = corrida s i"
      using Cons.prems(7) k_d by auto
  qed
qed

lemma b2j_self:
  "\<not> popular s (s ! i) \<Longrightarrow>
   takeWhile (\<lambda>j. j < length s) (b2j s (s ! i))
     = filter (\<lambda>j. s ! j = s ! i) [0..<length s]"
  by (simp add: b2j_def takeWhile_eq_all_conv)

lemma flm_row_diag:
  assumes i: "i < length s" and st: "diag_ok s i st"
  shows "diag_ok s (Suc i) (flm_row s s 0 (length s) i st)"
proof -
  obtain bi bj bk f where s: "st = ((bi, bj, bk), f)" by (cases st) auto
  from st have d: "bi = bj" "\<forall>j<i. corrida s j \<le> bk"
    "\<forall>j. f j \<le> corrida s j \<and> f j \<le> corrida_ant s i" "0 < i \<longrightarrow> f (i - 1) = corrida s (i - 1)"
    by (auto simp: diag_ok_def s)
  show ?thesis
  proof (cases "popular s (s ! i)")
    case True
    then have "flm_row s s 0 (length s) i st = ((bi, bj, bk), \<lambda>j. 0)"
      by (simp add: flm_row_def s b2j_def)
    moreover have "corrida s i = 0" using True by (simp add: corrida_eq [of s i])
    ultimately show ?thesis
      using d by (auto simp: diag_ok_def less_Suc_eq corrida_ant_def)
  next
    case False
    let ?js = "filter (\<lambda>j. s ! j = s ! i) [0..<length s]"
    obtain bi' bj' bk' new' where
      r: "fold (flm_cell f i) ?js ((bi, bj, bk), \<lambda>j. 0) = ((bi', bj', bk'), new')"
      by (cases "fold (flm_cell f i) ?js ((bi, bj, bk), \<lambda>j. 0)") auto
    have row: "flm_row s s 0 (length s) i st = ((bi', bj', bk'), new')"
      using r by (simp add: flm_row_def s b2j_self [OF False])
    have mem: "i \<in> set ?js" using i by simp
    have "bi' = bj' \<and> (\<forall>j<Suc i. corrida s j \<le> bk')
       \<and> (\<forall>j. new' j \<le> corrida s j \<and> new' j \<le> corrida s i)
       \<and> new' i = corrida s i"
      by (rule fold_flm_cell_diag [OF d(3) d(4) False _ _ d(1) d(2) _ _ _ r])
         (use mem in \<open>simp_all add: sorted_wrt_filter\<close>)
    then show ?thesis
      by (simp add: row diag_ok_def corrida_ant_def)
  qed
qed

lemma flm_scan_diag:
  "i \<le> length s \<Longrightarrow> diag_ok s i (flm_scan s s 0 i 0 (length s))"
proof (induction i)
  case 0
  then show ?case by (simp add: flm_scan_def diag_ok_def corrida_ant_def)
next
  case (Suc i)
  then show ?case by (simp add: flm_scan_Suc flm_row_diag)
qed

lemma extend_left_self: "extend_left s s 0 0 (b, b, k) = (0, 0, b + k)"
proof (induction b arbitrary: k)
  case 0
  then show ?case by (subst extend_left.simps) simp
next
  case (Suc b)
  show ?case by (subst extend_left.simps) (simp add: Suc.IH)
qed

lemma extend_right_self: "k \<le> n \<Longrightarrow> extend_right s s n n (0, 0, k) = (0, 0, n)"
proof (induction "n - k" arbitrary: k)
  case 0
  then show ?case by (subst extend_right.simps) simp
next
  case (Suc d)
  then have "extend_right s s n n (0, 0, Suc k) = (0, 0, n)" by simp
  moreover have "k < n" using Suc.hyps(2) by simp
  ultimately show ?case by (subst extend_right.simps) simp
qed

lemma find_longest_match_self:
  "find_longest_match s s 0 (length s) 0 (length s) = (0, 0, length s)"
proof -
  obtain bi bj bk f where sc: "flm_scan s s 0 (length s) 0 (length s) = ((bi, bj, bk), f)"
    by (cases "flm_scan s s 0 (length s) 0 (length s)") auto
  from flm_scan_diag [of "length s" s] have "bi = bj" by (simp add: sc diag_ok_def)
  moreover from flm_scan_block_ok [of s s 0 "length s" 0 "length s"]
  have "bi + bk \<le> length s" by (auto simp: sc block_ok_def)
  ultimately show ?thesis
    by (simp add: find_longest_match_def sc extend_left_self extend_right_self)
qed

lemma matching_loop_self:
  "matching_loop s s [(0, length s, 0, length s)] []
     = (if length s = 0 then [] else [(0, 0, length s)])"
  by (subst matching_loop.simps)
     (simp add: find_longest_match_self matching_loop.simps(1))

lemma ratio_self: "ratio s s = 1"
  by (simp add: ratio_def calculate_ratio_def tamanho_get_matching_blocks [unfolded tamanho_def]
        matching_loop_self)

lemma real_quick_ratio_self: "real_quick_ratio s s = 1"
  by (simp add: real_quick_ratio_def calculate_ratio_def)

lemma fold_quick_step:
  assumes "\<forall>c. avail c = (if c \<in> set p then Some (int (count_list s c) - int (count_list p c))
                          else None)"
    and "\<forall>c. count_list p c + count_list r c \<le> count_list s c"
  shows "snd (fold (quick_step s) r (avail, m)) = m + length r"
  using assms
proof (induction r arbitrary: p avail m)
  case Nil
  then show ?case by simp
next
  case (Cons e r)
  define numb where "numb = int (count_list s e) - int (count_list p e)"
  have n1: "(case avail e of Some n \<Rightarrow> n | None \<Rightarrow> int (count_list s e)) = numb"
    using Cons.prems(1) by (auto simp: numb_def)
  have "count_list p e + count_list (e # r) e \<le> count_list s e"
    using Cons.prems(2) by blast
  then have pos: "0 < numb"
    by (simp add: numb_def)
  have step: "quick_step s e (avail, m) = (avail(e \<mapsto> numb - 1), Suc m)"
    using pos by (simp add: quick_step_def n1 Let_def)
  have "snd (fold (quick_step s) r (avail(e \<mapsto> numb - 1), Suc m)) = Suc m + length r"
  proof (rule Cons.IH [of _ "p @ [e]"])
    show "\<forall>c. (avail(e \<mapsto> numb - 1)) c =
             (if c \<in> set (p @ [e])
              then Some (int (count_list s c) - int (count_list (p @ [e]) c)) else None)"
      using Cons.prems(1) by (auto simp: numb_def)
    show "\<forall>c. count_list (p @ [e]) c + count_list r c \<le> count_list s c"
    proof
      fix c
      have "count_list p c + count_list (e # r) c \<le> count_list s c"
        using Cons.prems(2) by blast
      then show "count_list (p @ [e]) c + count_list r c \<le> count_list s c"
        by (simp split: if_splits)
    qed
  qed
  then show ?case by (simp add: step)
qed

lemma quick_ratio_self: "quick_ratio s s = 1"
proof -
  have "snd (fold (quick_step s) s (Map.empty, 0)) = 0 + length s"
    by (rule fold_quick_step [of _ "[]"]) simp_all
  then show ?thesis by (simp add: quick_ratio_def calculate_ratio_def)
qed

lemma fold_max:
  fixes x :: "'a :: linorder"
  shows "fold (\<lambda>y m. if m < y then y else m) xs x \<in> set (x # xs)
       \<and> (\<forall>y\<in>set (x # xs). y \<le> fold (\<lambda>y m. if m < y then y else m) xs x)"
proof (induction xs arbitrary: x)
  case Nil
  then show ?case by simp
next
  case (Cons z zs)
  show ?case
  proof (cases "x < z")
    case True
    then show ?thesis using Cons.IH [of z] by (auto intro: order_trans less_imp_le)
  next
    case False
    then have "z \<le> x" by simp
    with False show ?thesis using Cons.IH [of x] by (auto intro: order_trans)
  qed
qed

lemma nlargest1_max:
  "xs \<noteq> [] \<Longrightarrow> \<exists>m. nlargest1 xs = [m] \<and> m \<in> set xs \<and> (\<forall>y\<in>set xs. y \<le> m)"
  using fold_max by (cases xs) auto

lemma corrigir_conhecido:
  assumes "lower w \<in> set nomes"
  shows "corrigir_nome_pokemon nomes w = lower w"
proof -
  let ?s = "lower w"
  let ?P = "\<lambda>x. cutoff \<le> real_quick_ratio x ?s \<and> cutoff \<le> quick_ratio x ?s \<and> cutoff \<le> ratio x ?s"
  let ?cands = "map (\<lambda>x. (ratio x ?s, x)) (filter ?P nomes)"
  have "?P ?s"
    by (simp add: ratio_self quick_ratio_self real_quick_ratio_self cutoff_def)
  with assms have "?s \<in> set (filter ?P nomes)" by simp
  then have "(ratio ?s ?s, ?s) \<in> (\<lambda>x. (ratio x ?s, x)) ` set (filter ?P nomes)"
    by (rule rev_image_eqI) simp
  then have mem: "(1, ?s) \<in> set ?cands"
    by (simp only: set_map ratio_self)
  have "?cands \<noteq> []"
  proof
    assume e: "?cands = []"
    from mem show False unfolding e by simp
  qed
  from nlargest1_max [OF this] obtain m where
    m: "nlargest1 ?cands = [m]" "m \<in> set ?cands" "\<forall>y\<in>set ?cands. y \<le> m" by blast
  from m(2) obtain x where x: "m = (ratio x ?s, x)" by auto
  from m(3) mem have "(1, ?s) \<le> (ratio x ?s, x)" unfolding x by blast
  then have "1 \<le> ratio x ?s" by (auto simp: less_eq_prod_def)
  then have "x = ?s" by (rule ratio_eq_1D)
  then have "get_close_matches ?s nomes = [?s]"
    using m(1) x by (simp add: get_close_matches_def)
  then show ?thesis by (simp add: corrigir_nome_pokemon_def)
qed

lemma NOMES_VALIDOS_lower: "s \<in> set (NOMES_VALIDOS cache_local) \<Longrightarrow> lower s = s"
  by (auto simp: NOMES_VALIDOS_def lower_lower)

lemma corrigir_sem_candidato:
  assumes "\<forall>x\<in>set nomes. ratio x (lower w) < cutoff"
  shows "corrigir_nome_pokemon nomes w = lower w"
proof -
  have "filter (\<lambda>x. cutoff \<le> real_quick_ratio x (lower w) \<and> cutoff \<le> quick_ratio x (lower w)
                     \<and> cutoff \<le> ratio x (lower w)) nomes = []"
    using assms by (auto simp: filter_empty_conv)
  then show ?thesis
    by (simp add: corrigir_nome_pokemon_def get_close_matches_def)
qed

text \<open>
  C9. \<^const>\<open>corrigir_nome_pokemon\<close> is a total function: it gives a string for every word
  and every list of names. A known name, that is a lower-cased name of the cache, is
  corrected to itself: it scores 1 against itself, and no other string does. When every
  known name scores below the cutoff 0.6 against the lower-cased word, the result is the
  lower-cased word.
\<close>

theorem corrigir_nome_pokemon_props:
  "(s \<in> set (NOMES_VALIDOS cache_local)
    \<longrightarrow> corrigir_nome_pokemon (NOMES_VALIDOS cache_local) s = s)
   \<and> ((\<forall>x\<in>set nomes. ratio x (lower nome_digitado) < cutoff)
    \<longrightarrow> corrigir_nome_pokemon nomes nome_digitado = lower nome_digitado)"
proof (intro conjI impI)
  assume s: "s \<in> set (NOMES_VALIDOS cache_local)"
  then have l: "lower s = s" by (rule NOMES_VALIDOS_lower)
  with s have "lower s \<in> set (NOMES_VALIDOS cache_local)" by simp
  from corrigir_conhecido [OF this] l
  show "corrigir_nome_pokemon (NOMES_VALIDOS cache_local) s = s" by simp
next
  assume "\<forall>x\<in>set nomes. ratio x (lower nome_digitado) < cutoff"
  then show "corrigir_nome_pokemon nomes nome_digitado = lower nome_digitado"
    by (rule corrigir_sem_candidato)
qed

theorem corrigir_nome_pokemon_props_witness:
  "''pikachu'' \<in> set (NOMES_VALIDOS [pikachu_cache])
   \<and> corrigir_nome_pokemon (NOMES_VALIDOS [pikachu_cache]) ''pikachu'' = ''pikachu''
   \<and> ratio ''pikachu'' (lower ''Qual'') < cutoff
   \<and> ratio ''raichu'' (lower ''Qual'') < cutoff
   \<and> corrigir_nome_pokemon [''pikachu'', ''raichu''] ''Qual'' = ''qual''"
proof -
  have h1: "''pikachu'' \<in> set (NOMES_VALIDOS [pikachu_cache])"
    by code_simp
  have p1: "ratio ''pikachu'' (lower ''Qual'') < cutoff"
    by code_simp
  have p2: "ratio ''raichu'' (lower ''Qual'') < cutoff"
    by code_simp
  from p1 p2
  have h2: "\<forall>x\<in>set [''pikachu'', ''raichu'']. ratio x (lower ''Qual'') < cutoff"
    by simp
  have l: "lower ''Qual'' = ''qual''"
    by code_simp
  from h1 corrigir_nome_pokemon_props [where s = "''pikachu''" and cache_local = "[pikachu_cache]"]
  have r1: "corrigir_nome_pokemon (NOMES_VALIDOS [pikachu_cache]) ''pikachu'' = ''pikachu''"
    by blast
  from h2 corrigir_nome_pokemon_props [where nomes = "[''pikachu'', ''raichu'']"
      and nome_digitado = "''Qual''"]
  have "corrigir_nome_pokemon [''pikachu'', ''raichu''] ''Qual'' = lower ''Qual''"
    by blast
  then have r2: "corrigir_nome_pokemon [''pikachu'', ''raichu''] ''Qual'' = ''qual''"
    unfolding l .
  from h1 r1 p1 p2 r2 show ?thesis by blast
qed

subsection \<open>Cache fallback\<close>










end
